theory Spec2Isabelle
  imports Complex_Main "HOL-Library.Product_Lexorder"
begin

section \<open>wrfpyx: conversion of WRF output to GFS-style metadata\<close>

text \<open>
  A shallow embedding of \<^verbatim>\<open>wrfpyx.py\<close>: the helper \<^verbatim>\<open>element_exists\<close> and the
  dispatch function \<^verbatim>\<open>wrf2gfs_params\<close>, together with the parts of the Python
  standard library, NumPy and xarray that the function calls (dates, \<^verbatim>\<open>strptime\<close>,
  array squeezing, indexing and elementwise arithmetic, the \<^verbatim>\<open>Dataset\<close> constructor).
  Strings are HOL strings, read as Python strings of code points below 256.
\<close>

subsection \<open>Exceptions and printed output\<close>

datatype error =
    KeyError string
  | IndexError
  | ValueError
  | AttributeError string
  | UnboundLocalError string
  | FileNotFoundError string

text \<open>
  A computation that prints and may raise: the lines printed so far, then the
  exception raised or the value returned.
\<close>

type_synonym 'a io = "string list \<times> (error + 'a)"

definition return_io :: "'a \<Rightarrow> 'a io" where
  "return_io x = ([], Inr x)"

definition raise_io :: "error \<Rightarrow> 'a io" where
  "raise_io e = ([], Inl e)"

definition print_io :: "string list \<Rightarrow> unit io" where
  "print_io ls = (ls, Inr ())"

definition lift_io :: "error + 'a \<Rightarrow> 'a io" where
  "lift_io r = ([], r)"

definition bind_io :: "'a io \<Rightarrow> ('a \<Rightarrow> 'b io) \<Rightarrow> 'b io" where
  "bind_io m f =
     (case m of
        (out, Inl e) \<Rightarrow> (out, Inl e)
      | (out, Inr x) \<Rightarrow> (case f x of (out', r) \<Rightarrow> (out @ out', r)))"

definition bind_e :: "error + 'a \<Rightarrow> ('a \<Rightarrow> error + 'b) \<Rightarrow> error + 'b" where
  "bind_e m f = (case m of Inl e \<Rightarrow> Inl e | Inr x \<Rightarrow> f x)"

subsection \<open>Characters and decimal numbers\<close>

definition is_digit :: "char \<Rightarrow> bool" where
  "is_digit c = (c \<in> set ''0123456789'')"

text \<open>
  The class \<^verbatim>\<open>\s\<close> of Python's \<^verbatim>\<open>re\<close> on strings, below code point 256:
  tab to carriage return, the separators 28 to 31, space, NEL and the no-break space.
\<close>

definition is_space :: "char \<Rightarrow> bool" where
  "is_space c =
     (c \<in> set [CHR 0x09, CHR 0x0A, CHR 0x0B, CHR 0x0C, CHR 0x0D, CHR 0x1C, CHR 0x1D,
                CHR 0x1E, CHR 0x1F, CHR 0x20, CHR 0x85, CHR 0xA0])"

definition digit_val :: "char \<Rightarrow> nat" where
  "digit_val c = length (takeWhile (\<lambda>d. d \<noteq> c) ''0123456789'')"

definition digit_chr :: "nat \<Rightarrow> char" where
  "digit_chr n = ''0123456789'' ! n"

text \<open>\<^verbatim>\<open>int(s)\<close> for the strings a directive can match: digits after an optional blank.\<close>

definition int_of_str :: "string \<Rightarrow> nat" where
  "int_of_str s = foldl (\<lambda>n c. 10 * n + digit_val c) 0 (filter is_digit s)"

fun str_nat :: "nat \<Rightarrow> string" where
  "str_nat n = (if n < 10 then [digit_chr n] else str_nat (n div 10) @ [digit_chr (n mod 10)])"

declare str_nat.simps [simp del]

text \<open>\<^verbatim>\<open>str(i)\<close> for a Python int.\<close>

definition str_int :: "int \<Rightarrow> string" where
  "str_int i = (if i < 0 then CHR ''-'' # str_nat (nat (- i)) else str_nat (nat i))"

definition zfill2 :: "nat \<Rightarrow> string" where
  "zfill2 n = (if n < 10 then CHR ''0'' # str_nat n else str_nat n)"

subsection \<open>\<^verbatim>\<open>datetime.datetime\<close> and \<^verbatim>\<open>datetime.timedelta\<close>\<close>

record datetime =
  year :: nat
  month :: nat
  day :: nat
  hour :: nat
  minute :: nat
  second :: nat

text \<open>A normalised \<^verbatim>\<open>timedelta\<close>: any number of days, and seconds within one day.\<close>

record timedelta =
  days :: int
  seconds :: int

definition is_leap :: "nat \<Rightarrow> bool" where
  "is_leap y = (y mod 4 = 0 \<and> (y mod 100 \<noteq> 0 \<or> y mod 400 = 0))"

definition days_before_year :: "nat \<Rightarrow> int" where
  "days_before_year y =
     (let y1 = int y - 1 in y1 * 365 + y1 div 4 - y1 div 100 + y1 div 400)"

definition days_in_month :: "nat \<Rightarrow> nat \<Rightarrow> nat" where
  "days_in_month y m =
     (if m = 2 \<and> is_leap y then 29
      else [0, 31, 28, 31, 30, 31, 30, 31, 31, 30, 31, 30, 31] ! m)"

definition days_before_month :: "nat \<Rightarrow> nat \<Rightarrow> nat" where
  "days_before_month y m =
     [0, 0, 31, 59, 90, 120, 151, 181, 212, 243, 273, 304, 334] ! m
       + (if 2 < m \<and> is_leap y then 1 else 0)"

definition ymd2ord :: "nat \<Rightarrow> nat \<Rightarrow> nat \<Rightarrow> int" where
  "ymd2ord y m d = days_before_year y + int (days_before_month y m) + int d"

definition toordinal :: "datetime \<Rightarrow> int" where
  "toordinal t = ymd2ord (year t) (month t) (day t)"

text \<open>The fields the constructor accepts; anything else raises \<^verbatim>\<open>ValueError\<close>.\<close>

definition valid_datetime :: "datetime \<Rightarrow> bool" where
  "valid_datetime t =
     (1 \<le> year t \<and> year t \<le> 9999 \<and> 1 \<le> month t \<and> month t \<le> 12 \<and>
      1 \<le> day t \<and> day t \<le> days_in_month (year t) (month t) \<and>
      hour t < 24 \<and> minute t < 60 \<and> second t < 60)"

definition datetime_new :: "nat \<Rightarrow> nat \<Rightarrow> nat \<Rightarrow> nat \<Rightarrow> nat \<Rightarrow> nat \<Rightarrow> error + datetime" where
  "datetime_new y m d H M S =
     (let t = \<lparr>year = y, month = m, day = d, hour = H, minute = M, second = S\<rparr>
      in if valid_datetime t then Inr t else Inl ValueError)"

definition secs_of_day :: "datetime \<Rightarrow> int" where
  "secs_of_day t = int (second t) + int (minute t) * 60 + int (hour t) * 3600"

text \<open>
  \<^verbatim>\<open>timedelta(days, seconds)\<close> carries whole days out of the seconds (\<^verbatim>\<open>divmod\<close>
  with a floor, as \<open>div\<close> and \<open>mod\<close> on \<open>int\<close>).
\<close>

definition timedelta_new :: "int \<Rightarrow> int \<Rightarrow> timedelta" where
  "timedelta_new d s = \<lparr>days = d + s div 86400, seconds = s mod 86400\<rparr>"

text \<open>\<^verbatim>\<open>a - b\<close> on two naive datetimes.\<close>

definition datetime_sub :: "datetime \<Rightarrow> datetime \<Rightarrow> timedelta" where
  "datetime_sub a b =
     timedelta_new (toordinal a - toordinal b) (secs_of_day a - secs_of_day b)"

text \<open>\<^verbatim>\<open>a <= b\<close> on two naive datetimes: the fields compared in order.\<close>

definition datetime_le :: "datetime \<Rightarrow> datetime \<Rightarrow> bool" where
  "datetime_le a b =
     ((year a, month a, day a, hour a, minute a, second a)
        \<le> (year b, month b, day b, hour b, minute b, second b))"

subsection \<open>\<^verbatim>\<open>datetime.strptime\<close>\<close>

text \<open>
  \<^verbatim>\<open>strptime\<close> turns the format into a regular expression, one named group for
  each directive, and matches it at the start of the text with Python's backtracking
  matcher: the alternatives of a group are tried in the order in which they are
  written, a later item of the format may send the matcher back to the next one.
  A run of white space in the format stands for \<^verbatim>\<open>\s+\<close>.
  Only the directives that the program uses are listed; any other is refused.
\<close>

datatype directive = DirY | Dirm | Dird | DirH | DirM | DirS

datatype fmt_item = Dir directive | Lit char | Spaces

definition directive_of :: "char \<Rightarrow> directive option" where
  "directive_of c =
     (if c = CHR ''Y'' then Some DirY else if c = CHR ''m'' then Some Dirm
      else if c = CHR ''d'' then Some Dird else if c = CHR ''H'' then Some DirH
      else if c = CHR ''M'' then Some DirM else if c = CHR ''S'' then Some DirS
      else None)"

fun compile_format :: "string \<Rightarrow> fmt_item list option" where
  "compile_format [] = Some []"
| "compile_format [c] =
     (if c = CHR ''%'' then None
      else if is_space c then Some [Spaces] else Some [Lit c])"
| "compile_format (c # d # cs) =
     (if c = CHR ''%'' then
        (case directive_of d of
           None \<Rightarrow> None
         | Some x \<Rightarrow> map_option ((#) (Dir x)) (compile_format cs))
      else if is_space c then
        (case compile_format (d # cs) of
           None \<Rightarrow> None
         | Some (Spaces # r) \<Rightarrow> Some (Spaces # r)
         | Some r \<Rightarrow> Some (Spaces # r))
      else map_option ((#) (Lit c)) (compile_format (d # cs)))"

text \<open>
  The group of a directive: its alternatives in the order in which they are written,
  each a sequence of character classes. \<^verbatim>\<open>%Y\<close> is \<^verbatim>\<open>\d\d\d\d\<close>, \<^verbatim>\<open>%m\<close> is
  \<^verbatim>\<open>1[0-2]|0[1-9]|[1-9]\<close>, \<^verbatim>\<open>%d\<close> is \<^verbatim>\<open>3[0-1]|[1-2]\d|0[1-9]|[1-9]| [1-9]\<close>,
  \<^verbatim>\<open>%H\<close> is \<^verbatim>\<open>2[0-3]|[0-1]\d|\d\<close>, \<^verbatim>\<open>%M\<close> is \<^verbatim>\<open>[0-5]\d|\d\<close> and
  \<^verbatim>\<open>%S\<close> is \<^verbatim>\<open>6[0-1]|[0-5]\d|\d\<close>. Below code point 256 the class \<^verbatim>\<open>\d\<close>
  is \<^verbatim>\<open>[0-9]\<close>.
\<close>

definition directive_group :: "directive \<Rightarrow> string list list" where
  "directive_group d =
     (let digit = ''0123456789''; pos = ''123456789''
      in case d of
           DirY \<Rightarrow> [[digit, digit, digit, digit]]
         | Dirm \<Rightarrow> [[''1'', ''012''], [''0'', pos], [pos]]
         | Dird \<Rightarrow> [[''3'', ''01''], [''12'', digit], [''0'', pos], [pos], ['' '', pos]]
         | DirH \<Rightarrow> [[''2'', ''0123''], [''01'', digit], [digit]]
         | DirM \<Rightarrow> [[''012345'', digit], [digit]]
         | DirS \<Rightarrow> [[''6'', ''01''], [''012345'', digit], [digit]])"

text \<open>The text that one alternative matches at the start, and what follows it.\<close>

fun match_classes :: "string list \<Rightarrow> string \<Rightarrow> (string \<times> string) option" where
  "match_classes [] s = Some ([], s)"
| "match_classes (c # cs) [] = None"
| "match_classes (c # cs) (x # xs) =
     (if x \<in> set c then map_option (\<lambda>(m, r). (x # m, r)) (match_classes cs xs) else None)"

text \<open>The first alternative that starts the text and lets the rest of the format match.\<close>

fun try_alternatives ::
  "string list list \<Rightarrow> string \<Rightarrow> (string \<Rightarrow> string \<Rightarrow> 'r option) \<Rightarrow> 'r option" where
  "try_alternatives [] s k = None"
| "try_alternatives (a # as) s k =
     (case match_classes a s of
        None \<Rightarrow> try_alternatives as s k
      | Some (m, rest) \<Rightarrow>
          (case k m rest of
             Some r \<Rightarrow> Some r
           | None \<Rightarrow> try_alternatives as s k))"

text \<open>\<^verbatim>\<open>\s+\<close> is greedy: the longest run first, then one character less, down to one.\<close>

fun try_spaces :: "nat \<Rightarrow> string \<Rightarrow> (string \<Rightarrow> 'r option) \<Rightarrow> 'r option" where
  "try_spaces 0 s k = None"
| "try_spaces (Suc n) s k =
     (case k (drop (Suc n) s) of
        Some r \<Rightarrow> Some r
      | None \<Rightarrow> try_spaces n s k)"

primrec regex_match :: "fmt_item list \<Rightarrow> string \<Rightarrow> ((directive \<times> string) list \<times> string) option" where
  "regex_match [] s = Some ([], s)"
| "regex_match (i # items) s =
     (case i of
        Lit c \<Rightarrow>
          (case s of
             [] \<Rightarrow> None
           | c' # s' \<Rightarrow> if c' = c then regex_match items s' else None)
      | Spaces \<Rightarrow> try_spaces (length (takeWhile is_space s)) s (regex_match items)
      | Dir d \<Rightarrow>
          try_alternatives (directive_group d) s
            (\<lambda>a rest. map_option (\<lambda>(found, r). ((d, a) # found, r)) (regex_match items rest)))"

definition found_field :: "directive \<Rightarrow> nat \<Rightarrow> (directive \<times> string) list \<Rightarrow> nat" where
  "found_field d dflt found =
     (case map_of found d of None \<Rightarrow> dflt | Some a \<Rightarrow> int_of_str a)"

text \<open>
  No match, or text left over after the match, is a \<^verbatim>\<open>ValueError\<close>; so is a date
  that the constructor refuses. A field without a directive keeps its default
  (1900-01-01 00:00:00).
\<close>

definition strptime :: "string \<Rightarrow> string \<Rightarrow> error + datetime" where
  "strptime data_string format =
     (case compile_format format of
        None \<Rightarrow> Inl ValueError
      | Some items \<Rightarrow>
          (case regex_match items data_string of
             None \<Rightarrow> Inl ValueError
           | Some (found, rest) \<Rightarrow>
               if rest \<noteq> [] then Inl ValueError
               else datetime_new (found_field DirY 1900 found) (found_field Dirm 1 found)
                      (found_field Dird 1 found) (found_field DirH 0 found)
                      (found_field DirM 0 found) (found_field DirS 0 found)))"

text \<open>
  \<^verbatim>\<open>strftime('%Y-%m-%dT%H:00:00Z')\<close>; the years that occur have four digits.
\<close>

definition strftime_since :: "datetime \<Rightarrow> string" where
  "strftime_since t =
     str_nat (year t) @ ''-'' @ zfill2 (month t) @ ''-'' @ zfill2 (day t)
       @ ''T'' @ zfill2 (hour t) @ '':00:00Z''"

subsection \<open>Floating-point numbers\<close>

text \<open>
  An array element is a rational number: the value of a finite floating-point number
  (or of an integer). Arithmetic rounds the exact result to the nearest number of the
  format, ties to even, as IEEE 754 does; binary32 has 24 significant bits and binary64
  has 53. Overflow, subnormal numbers, infinities and NaN are outside the model.
\<close>

datatype dtype = Float32 | Float64 | Int64

function bitlen :: "int \<Rightarrow> int" where
  "bitlen n = (if n \<le> 0 then 0 else 1 + bitlen (n div 2))"
  by pat_completeness auto
termination
  by (relation "measure nat") auto

declare bitlen.simps [simp del]

text \<open>The exponent \<open>e\<close> with \<open>2 ^ e \<le> x < 2 ^ (e + 1)\<close>, for positive \<open>x\<close>.\<close>

definition floor_log2 :: "rat \<Rightarrow> int" where
  "floor_log2 x =
     (case quotient_of x of
        (n, d) \<Rightarrow>
          (let k = bitlen n - bitlen d
           in if power_int 2 k \<le> x then k else k - 1))"

definition round_half_even :: "rat \<Rightarrow> int" where
  "round_half_even m =
     (let f = \<lfloor>m\<rfloor>; r = m - of_int f
      in if r < 1 / 2 then f
         else if 1 / 2 < r then f + 1
         else if even f then f else f + 1)"

definition fl_round :: "nat \<Rightarrow> rat \<Rightarrow> rat" where
  "fl_round p x =
     (if x = 0 then 0
      else (let q = power_int 2 (floor_log2 \<bar>x\<bar> - int p + 1)
            in of_int (round_half_even (x / q)) * q))"

definition astype :: "dtype \<Rightarrow> rat \<Rightarrow> rat" where
  "astype d x =
     (case d of Float32 \<Rightarrow> fl_round 24 x | Float64 \<Rightarrow> fl_round 53 x | Int64 \<Rightarrow> x)"

text \<open>A Python \<^verbatim>\<open>float\<close> literal is the binary64 number nearest to the decimal written.\<close>

definition py_float :: "rat \<Rightarrow> rat" where
  "py_float x = fl_round 53 x"

text \<open>The literal \<^verbatim>\<open>273.15\<close> of the program.\<close>

definition zero_celsius :: rat where
  "zero_celsius = py_float (27315 / 100)"

text \<open>
  The type of \<^verbatim>\<open>array op scalar\<close> for a Python \<^verbatim>\<open>float\<close> scalar, and of true
  division by a Python \<^verbatim>\<open>int\<close>: a float array keeps its type, an integer array
  becomes binary64.
\<close>

definition float_result :: "dtype \<Rightarrow> dtype" where
  "float_result d = (case d of Int64 \<Rightarrow> Float64 | _ \<Rightarrow> d)"

definition promote :: "dtype \<Rightarrow> dtype \<Rightarrow> dtype" where
  "promote d1 d2 = (if d1 = d2 then d1 else Float64)"

subsection \<open>NumPy arrays\<close>

text \<open>An array: its element type, its shape and its elements in row-major order.\<close>

record ndarray =
  dtype :: dtype
  shape :: "nat list"
  elems :: "rat list"

definition ndim :: "ndarray \<Rightarrow> nat" where
  "ndim a = length (shape a)"

text \<open>\<^verbatim>\<open>a.squeeze()\<close> drops every axis of length one.\<close>

definition squeeze :: "ndarray \<Rightarrow> ndarray" where
  "squeeze a = a\<lparr>shape := filter (\<lambda>n. n \<noteq> 1) (shape a)\<rparr>"

text \<open>One elementwise operation in the type \<open>d\<close>: both operands cast, the result rounded.\<close>

definition fl_op :: "dtype \<Rightarrow> (rat \<Rightarrow> rat \<Rightarrow> rat) \<Rightarrow> rat \<Rightarrow> rat \<Rightarrow> rat" where
  "fl_op d f x y = astype d (f (astype d x) (astype d y))"

text \<open>\<^verbatim>\<open>a - c\<close> and \<^verbatim>\<open>a / c\<close> for an array and a Python scalar.\<close>

definition np_sub_scalar :: "ndarray \<Rightarrow> rat \<Rightarrow> ndarray" where
  "np_sub_scalar a c =
     (let d = float_result (dtype a)
      in \<lparr>dtype = d, shape = shape a, elems = map (\<lambda>x. fl_op d (-) x c) (elems a)\<rparr>)"

definition np_div_scalar :: "ndarray \<Rightarrow> rat \<Rightarrow> ndarray" where
  "np_div_scalar a c =
     (let d = float_result (dtype a)
      in \<lparr>dtype = d, shape = shape a, elems = map (\<lambda>x. fl_op d (/) x c) (elems a)\<rparr>)"

text \<open>
  \<^verbatim>\<open>a + b\<close> and \<^verbatim>\<open>a - b\<close> for two arrays, both squeezed as everywhere in the
  program: with no axis of length one, the shapes broadcast exactly when one is the
  tail of the other, and the smaller array is repeated along the leading axes.
  Otherwise NumPy raises \<^verbatim>\<open>ValueError\<close>.
\<close>

definition tile :: "nat \<Rightarrow> rat list \<Rightarrow> rat list" where
  "tile k xs = concat (replicate k xs)"

definition is_tail :: "nat list \<Rightarrow> nat list \<Rightarrow> bool" where
  "is_tail s t = (length s \<le> length t \<and> drop (length t - length s) t = s)"

definition lead :: "nat list \<Rightarrow> nat list \<Rightarrow> nat" where
  "lead s t = prod_list (take (length t - length s) t)"

definition np_binop :: "(rat \<Rightarrow> rat \<Rightarrow> rat) \<Rightarrow> ndarray \<Rightarrow> ndarray \<Rightarrow> error + ndarray" where
  "np_binop f a b =
     (let d = promote (dtype a) (dtype b)
      in if is_tail (shape b) (shape a) then
           Inr \<lparr>dtype = d, shape = shape a,
                elems = map2 (fl_op d f) (elems a) (tile (lead (shape b) (shape a)) (elems b))\<rparr>
         else if is_tail (shape a) (shape b) then
           Inr \<lparr>dtype = d, shape = shape b,
                elems = map2 (fl_op d f) (tile (lead (shape a) (shape b)) (elems a)) (elems b)\<rparr>
         else Inl ValueError)"

definition np_add :: "ndarray \<Rightarrow> ndarray \<Rightarrow> error + ndarray" where
  "np_add a b = np_binop (+) a b"

definition np_sub :: "ndarray \<Rightarrow> ndarray \<Rightarrow> error + ndarray" where
  "np_sub a b = np_binop (-) a b"

text \<open>
  \<^verbatim>\<open>a[np.newaxis,:,:]\<close> and \<^verbatim>\<open>a[np.newaxis,np.newaxis,:,:]\<close>: two slices need
  two axes, or NumPy raises \<^verbatim>\<open>IndexError\<close>.
\<close>

definition newaxis1 :: "ndarray \<Rightarrow> error + ndarray" where
  "newaxis1 a = (if ndim a < 2 then Inl IndexError else Inr (a\<lparr>shape := 1 # shape a\<rparr>))"

definition newaxis2 :: "ndarray \<Rightarrow> error + ndarray" where
  "newaxis2 a = (if ndim a < 2 then Inl IndexError else Inr (a\<lparr>shape := 1 # 1 # shape a\<rparr>))"

text \<open>\<^verbatim>\<open>a[0,:]\<close> and \<^verbatim>\<open>a[:,0]\<close> on an array of two axes; index 0 needs an element.\<close>

definition row0 :: "ndarray \<Rightarrow> error + ndarray" where
  "row0 a =
     (case shape a of
        [n, m] \<Rightarrow>
          if n = 0 then Inl IndexError
          else Inr \<lparr>dtype = dtype a, shape = [m], elems = take m (elems a)\<rparr>
      | _ \<Rightarrow> Inl IndexError)"

definition col0 :: "ndarray \<Rightarrow> error + ndarray" where
  "col0 a =
     (case shape a of
        [n, m] \<Rightarrow>
          if m = 0 then Inl IndexError
          else Inr \<lparr>dtype = dtype a, shape = [n],
                    elems = map (\<lambda>i. elems a ! (i * m)) [0..<n]\<rparr>
      | _ \<Rightarrow> Inl IndexError)"

text \<open>A Python list of integers made into an array, as for a coordinate: \<^verbatim>\<open>[10]\<close>.\<close>

definition int_array :: "int list \<Rightarrow> ndarray" where
  "int_array xs = \<lparr>dtype = Int64, shape = [length xs], elems = map of_int xs\<rparr>"

subsection \<open>WRF files and xarray datasets\<close>

text \<open>
  What \<^verbatim>\<open>xr.open_dataset\<close> gives for a WRF output file: the decoded entries of the
  character variable \<^verbatim>\<open>Times\<close>, the global attribute \<^verbatim>\<open>START_DATE\<close>, and the
  numeric variables by name, each with its dimension names and its array.
  A missing variable or attribute is \<open>None\<close> or has no entry.
\<close>

record nc_variable =
  var_dims :: "string list"
  var_data :: ndarray

record wrf_file =
  Times :: "string list option"
  START_DATE :: "string option"
  variables :: "(string \<times> nc_variable) list"

type_synonym filesystem = "string \<Rightarrow> wrf_file option"

definition open_dataset :: "filesystem \<Rightarrow> string \<Rightarrow> error + wrf_file" where
  "open_dataset fs namefile =
     (case fs namefile of None \<Rightarrow> Inl (FileNotFoundError namefile) | Some nc \<Rightarrow> Inr nc)"

text \<open>\<^verbatim>\<open>nc[name].data[:]\<close> for a numeric variable.\<close>

definition nc_getitem :: "wrf_file \<Rightarrow> string \<Rightarrow> error + ndarray" where
  "nc_getitem nc name =
     (case map_of (variables nc) name of
        None \<Rightarrow> Inl (KeyError name)
      | Some v \<Rightarrow> Inr (var_data v))"

text \<open>\<^verbatim>\<open>nc['Times'].data[0].squeeze().decode()\<close>\<close>

definition read_Times :: "wrf_file \<Rightarrow> error + string" where
  "read_Times nc =
     (case Times nc of
        None \<Rightarrow> Inl (KeyError ''Times'')
      | Some [] \<Rightarrow> Inl IndexError
      | Some (a # _) \<Rightarrow> Inr a)"

text \<open>\<^verbatim>\<open>nc.START_DATE\<close>\<close>

definition read_START_DATE :: "wrf_file \<Rightarrow> error + string" where
  "read_START_DATE nc =
     (case START_DATE nc of None \<Rightarrow> Inl (AttributeError ''START_DATE'') | Some s \<Rightarrow> Inr s)"

text \<open>\<^verbatim>\<open>list(nc.variables.keys())\<close>\<close>

definition variables_keys :: "wrf_file \<Rightarrow> string list" where
  "variables_keys nc =
     (case Times nc of None \<Rightarrow> [] | Some _ \<Rightarrow> [''Times'']) @ map fst (variables nc)"

text \<open>
  \<^verbatim>\<open>nc.CLDFRA.max(dim='bottom_top')\<close>: the largest element along the named axis.
  With \<open>n\<close> the length of that axis and \<open>inner\<close> the number of elements of one
  entry of it, element \<open>(o, j, i)\<close> is at \<open>(o * n + j) * inner + i\<close>.
  An axis of length 0 has no largest element.
\<close>

definition index_of :: "string \<Rightarrow> string list \<Rightarrow> nat option" where
  "index_of x xs = (if x \<in> set xs then Some (length (takeWhile (\<lambda>y. y \<noteq> x) xs)) else None)"

definition max_dim :: "nc_variable \<Rightarrow> string \<Rightarrow> error + nc_variable" where
  "max_dim v dname =
     (case index_of dname (var_dims v) of
        None \<Rightarrow> Inl ValueError
      | Some k \<Rightarrow>
          (let a = var_data v; s = shape a; n = s ! k;
               outer = prod_list (take k s); inner = prod_list (drop (Suc k) s)
           in if length s \<noteq> length (var_dims v) \<or> n = 0 then Inl ValueError
              else Inr \<lparr>var_dims = take k (var_dims v) @ drop (Suc k) (var_dims v),
                        var_data = \<lparr>dtype = dtype a, shape = take k s @ drop (Suc k) s,
                          elems = [fold max [elems a ! ((x * n + j) * inner + i). j \<leftarrow> [1..<n]]
                                     (elems a ! (x * n * inner + i)).
                                   x \<leftarrow> [0..<outer], i \<leftarrow> [0..<inner]]\<rparr>\<rparr>))"

text \<open>An output variable and the output dataset.\<close>

type_synonym attrs = "(string \<times> string) list"

record variable =
  dims :: "string list"
  data :: ndarray
  attrs :: attrs

record dataset =
  data_vars :: "(string \<times> variable) list"
  coords :: "(string \<times> variable) list"

text \<open>\<^verbatim>\<open>xr.Dataset()\<close>\<close>

definition empty_dataset :: dataset where
  "empty_dataset = \<lparr>data_vars = [], coords = []\<rparr>"

text \<open>
  \<^verbatim>\<open>xr.Dataset(data_vars, coords)\<close> raises \<^verbatim>\<open>ValueError\<close> unless every variable
  has one dimension name for each axis of its array and every dimension has one
  length throughout.
\<close>

definition variable_ok :: "variable \<Rightarrow> bool" where
  "variable_ok v = (length (dims v) = ndim (data v) \<and> distinct (dims v))"

definition dim_sizes :: "variable \<Rightarrow> (string \<times> nat) list" where
  "dim_sizes v = zip (dims v) (shape (data v))"

definition sizes_agree :: "(string \<times> nat) list \<Rightarrow> bool" where
  "sizes_agree ps = list_all (\<lambda>(d, n). list_all (\<lambda>(d', n'). d \<noteq> d' \<or> n = n') ps) ps"

definition xr_Dataset :: "(string \<times> variable) list \<Rightarrow> (string \<times> variable) list \<Rightarrow> error + dataset" where
  "xr_Dataset dv cs =
     (let vs = map snd (dv @ cs)
      in if list_all variable_ok vs \<and> sizes_agree (concat (map dim_sizes vs))
         then Inr \<lparr>data_vars = dv, coords = cs\<rparr>
         else Inl ValueError)"

subsection \<open>The attribute dictionaries\<close>

definition attrs_ground :: attrs where
  "attrs_ground =
     [(''units'', ''m''),
      (''long_name'', ''Specified height level above ground''),
      (''standard_name'', ''depth''),
      (''axis'', ''Z''),
      (''positive'', ''up''),
      (''_CoordinateAxisType'', ''Height''),
      (''_CoordinateZisPositive'', ''up''),
      (''datum'', ''ground'')]"

definition attrs_lat :: attrs where
  "attrs_lat =
     [(''units'', ''degrees_north''), (''_CoordinateAxisType'', ''Lat''),
      (''axis'', ''Y''), (''standard_name'', ''latitude'')]"

definition attrs_lon :: attrs where
  "attrs_lon =
     [(''units'', ''degrees_east''), (''_CoordinateAxisType'', ''Lon''),
      (''axis'', ''X''), (''standard_name'', ''longitude'')]"

definition fill_attrs :: "string \<Rightarrow> string \<Rightarrow> string \<Rightarrow> attrs" where
  "fill_attrs units long_name abbreviation =
     [(''units'', units), (''long_name'', long_name),
      (''_FillValue'', ''NaN''), (''missing_value'', ''NaN''),
      (''abbreviation'', abbreviation)]"

definition wind_attrs :: "string \<Rightarrow> string \<Rightarrow> string \<Rightarrow> attrs" where
  "wind_attrs long_name standard_name abbreviation =
     [(''units'', ''meter_second-1''), (''long_name'', long_name),
      (''standard_name'', standard_name),
      (''_FillValue'', ''NaN''), (''missing_value'', ''NaN''),
      (''abbreviation'', abbreviation)]"

definition attrs_u :: attrs where
  "attrs_u = wind_attrs ''u-component of wind @ Specified height level above ground''
               ''x_wind'' ''UGRD''"

definition attrs_v :: attrs where
  "attrs_v = wind_attrs ''v-component of wind @ Specified height level above ground''
               ''y_wind'' ''VGRD''"

definition attrs_t2 :: attrs where
  "attrs_t2 = fill_attrs ''Celsius''
                ''Temperature @ Specified height level above ground'' ''TMP''"

definition attrs_rh :: attrs where
  "attrs_rh = fill_attrs ''percentage''
                ''Relative humidity @ Specified height level above ground'' ''RH''"

definition attrs_ps :: attrs where
  "attrs_ps = fill_attrs ''millibar'' ''Pressure @ Ground or water surface'' ''PRES''"

definition attrs_cl :: attrs where
  "attrs_cl = fill_attrs ''nondimensional'' ''Total cloud cover @ Entire atmosphere'' ''TCDC''"

definition attrs_pr :: attrs where
  "attrs_pr = fill_attrs ''kilogram_meter-2_second-1''
                ''Precipitation rate @ Ground or water surface'' ''PRATE''"

definition attrs_lw :: attrs where
  "attrs_lw = fill_attrs ''watt_meter-2''
     ''Downward Long-Wave Rad. Flux (Mixed_intervals Average) @ Ground or water surface''
     ''DLWRF''"

definition attrs_sw :: attrs where
  "attrs_sw = fill_attrs ''watt_meter-2''
     ''Downward Short-Wave Radiation Flux (Mixed_intervals Average) @ Ground or water surface''
     ''DSWRF''"

subsection \<open>\<^verbatim>\<open>element_exists\<close>\<close>

text \<open>\<^verbatim>\<open>lst.index(element)\<close> raises \<^verbatim>\<open>ValueError\<close> exactly when the element is absent.\<close>

definition element_exists :: "string list \<Rightarrow> string \<Rightarrow> bool" where
  "element_exists lst element = (element \<in> set lst)"

subsection \<open>\<^verbatim>\<open>wrf2gfs_params\<close>: time and coordinates\<close>

text \<open>
  The keyword arguments that the function reads: \<^verbatim>\<open>yearsince\<close>, taken as a Python
  \<^verbatim>\<open>int\<close>, and \<^verbatim>\<open>step_b\<close>, taken as a Python \<^verbatim>\<open>str\<close>; \<open>None\<close> when the caller
  gives none.
\<close>

record kwargs =
  yearsince :: "int option"
  step_b :: "string option"

text \<open>
  The local variables that every branch uses: \<^verbatim>\<open>b\<close> (the valid time),
  \<^verbatim>\<open>start_date\<close>, \<^verbatim>\<open>hours\<close>, \<^verbatim>\<open>lon\<close>, \<^verbatim>\<open>lat\<close>, \<^verbatim>\<open>hours_since\<close> and
  \<^verbatim>\<open>attrs_time\<close>.
\<close>

record locals =
  valid_time :: datetime
  start_date :: datetime
  hours :: rat
  lon :: ndarray
  lat :: ndarray
  hours_since :: int
  attrs_time :: attrs

text \<open>
  \<^verbatim>\<open>c = b - start_date; hours = c.seconds/(60*60)\<close>. The quotient of the two
  integers is kept as a rational number; Python rounds it to the nearest binary64
  number, which is 0 exactly when the quotient is 0 and positive exactly when it is.
\<close>

definition lead_hours :: "datetime \<Rightarrow> datetime \<Rightarrow> rat" where
  "lead_hours b start = of_int (seconds (datetime_sub b start)) / (60 * 60)"

text \<open>\<^verbatim>\<open>delta = b - date_sice; hours_since = delta.days*24 + int(b.hour)\<close>\<close>

definition hours_since_epoch :: "datetime \<Rightarrow> datetime \<Rightarrow> int" where
  "hours_since_epoch b date_sice = days (datetime_sub b date_sice) * 24 + int (hour b)"

text \<open>
  \<^verbatim>\<open>yearsice = kwargs.get('yearsince', None)\<close>: a value that is true is announced
  and used, \<^verbatim>\<open>None\<close> is replaced by the year of the start date, and 0 (false, and
  not \<^verbatim>\<open>None\<close>) stays.
\<close>

definition resolve_yearsice :: "kwargs \<Rightarrow> datetime \<Rightarrow> int io" where
  "resolve_yearsice kw start =
     (case yearsince kw of
        Some y \<Rightarrow>
          if y \<noteq> 0 then
            bind_io (print_io [[],
                       ''* Times units variable was set by user  -> yearsince:'' @ str_int y,
                       []])
              (\<lambda>_. return_io y)
          else return_io y
      | None \<Rightarrow> return_io (int (year start)))"

text \<open>\<^verbatim>\<open>strptime(str(yearsice)+'0101 00','%Y%m%d %H')\<close>\<close>

definition date_since :: "int \<Rightarrow> error + datetime" where
  "date_since yearsice = strptime (str_int yearsice @ ''0101 00'') ''%Y%m%d %H''"

text \<open>
  \<^verbatim>\<open>lon = nc['XLONG'].data[:].squeeze()\<close>, then
  \<^verbatim>\<open>if len(lon.shape) == 2: lon = lon[0,:].copy()\<close>; for \<^verbatim>\<open>lat\<close> the first column.
\<close>

definition collapse_lon :: "ndarray \<Rightarrow> error + ndarray" where
  "collapse_lon x = (let a = squeeze x in if length (shape a) = 2 then row0 a else Inr a)"

definition collapse_lat :: "ndarray \<Rightarrow> error + ndarray" where
  "collapse_lat x = (let a = squeeze x in if length (shape a) = 2 then col0 a else Inr a)"

definition time_attrs :: "datetime \<Rightarrow> attrs" where
  "time_attrs date_sice =
     [(''units'', ''hours since '' @ strftime_since date_sice),
      (''calendar'', ''proleptic_gregorian'')]"

text \<open>The statements before the dispatch, in their order.\<close>

definition preamble :: "wrf_file \<Rightarrow> kwargs \<Rightarrow> locals io" where
  "preamble nc kw =
     bind_io (lift_io (read_Times nc)) (\<lambda>a.
     bind_io (lift_io (strptime a ''%Y-%m-%d_%H:00:00'')) (\<lambda>b.
     bind_io (lift_io (bind_e (read_START_DATE nc)
                         (\<lambda>s. strptime s ''%Y-%m-%d_%H:%M:%S''))) (\<lambda>start.
     bind_io (resolve_yearsice kw start) (\<lambda>yearsice.
     bind_io (lift_io (date_since yearsice)) (\<lambda>date_sice.
     bind_io (lift_io (nc_getitem nc ''XLONG'')) (\<lambda>xlong.
     bind_io (lift_io (nc_getitem nc ''XLAT'')) (\<lambda>xlat.
     bind_io (lift_io (collapse_lon xlong)) (\<lambda>lon'.
     bind_io (lift_io (collapse_lat xlat)) (\<lambda>lat'.
       return_io \<lparr>valid_time = b, start_date = start, hours = lead_hours b start,
                  lon = lon', lat = lat',
                  hours_since = hours_since_epoch b date_sice,
                  attrs_time = time_attrs date_sice\<rparr>)))))))))"

subsection \<open>\<^verbatim>\<open>wrf2gfs_params\<close>: the output datasets\<close>

definition coord_time :: "locals \<Rightarrow> string \<times> variable" where
  "coord_time l =
     (''time'', \<lparr>dims = [''time''], data = int_array [hours_since l], attrs = attrs_time l\<rparr>)"

definition coord_lat :: "locals \<Rightarrow> string \<times> variable" where
  "coord_lat l = (''lat'', \<lparr>dims = [''lat''], data = lat l, attrs = attrs_lat\<rparr>)"

definition coord_lon :: "locals \<Rightarrow> string \<times> variable" where
  "coord_lon l = (''lon'', \<lparr>dims = [''lon''], data = lon l, attrs = attrs_lon\<rparr>)"

definition coord_height :: "string \<times> variable" where
  "coord_height =
     (''height_above_ground2'',
      \<lparr>dims = [''height_above_ground2''], data = int_array [10], attrs = attrs_ground\<rparr>)"

text \<open>
  The dataset of one variable on \<^verbatim>\<open>("time", "lat", "lon")\<close> with the data
  \<^verbatim>\<open>ncvar[np.newaxis,:,:]\<close>, as every branch but the two winds builds it.
\<close>

definition surface_dataset :: "string \<Rightarrow> ndarray \<Rightarrow> attrs \<Rightarrow> locals \<Rightarrow> error + dataset" where
  "surface_dataset name ncvar a l =
     bind_e (newaxis1 ncvar) (\<lambda>d.
       xr_Dataset [(name, \<lparr>dims = [''time'', ''lat'', ''lon''], data = d, attrs = a\<rparr>)]
         [coord_time l, coord_lat l, coord_lon l])"

text \<open>
  The dataset of a wind on \<^verbatim>\<open>("time", "height_above_ground2", "lat", "lon")\<close>
  with the data \<^verbatim>\<open>ncvar[np.newaxis,np.newaxis,:,:]\<close>.
\<close>

definition height_dataset :: "string \<Rightarrow> ndarray \<Rightarrow> attrs \<Rightarrow> locals \<Rightarrow> error + dataset" where
  "height_dataset name ncvar a l =
     bind_e (newaxis2 ncvar) (\<lambda>d.
       xr_Dataset
         [(name, \<lparr>dims = [''time'', ''height_above_ground2'', ''lat'', ''lon''],
                  data = d, attrs = a\<rparr>)]
         [coord_time l, coord_height, coord_lat l, coord_lon l])"

subsection \<open>\<^verbatim>\<open>wrf2gfs_params\<close>: the branches\<close>

definition upper_char :: "char \<Rightarrow> char" where
  "upper_char c =
     (case map_of (zip ''abcdefghijklmnopqrstuvwxyz'' ''ABCDEFGHIJKLMNOPQRSTUVWXYZ'') c of
        None \<Rightarrow> c
      | Some u \<Rightarrow> u)"

text \<open>
  \<^verbatim>\<open>varname.upper()\<close> on ASCII letters. The upper case of any other character is
  no ASCII character, and \<^verbatim>\<open>SS\<close> (from the sharp s) is in no key, so these
  characters are left as they are: the text equals a key in the model exactly when it
  does in Python.
\<close>

definition str_upper :: "string \<Rightarrow> string" where
  "str_upper s = map upper_char s"

text \<open>The loop of the \<^verbatim>\<open>RH\<close> branch over \<^verbatim>\<open>var_elements\<close>.\<close>

fun count_elements :: "string list \<Rightarrow> string list \<Rightarrow> nat \<Rightarrow> string list \<Rightarrow> nat \<times> string list" where
  "count_elements var_keys [] counter not_key = (counter, not_key)"
| "count_elements var_keys (n # ns) counter not_key =
     (if element_exists var_keys n
      then count_elements var_keys ns (counter + 1) not_key
      else count_elements var_keys ns counter (not_key @ [n]))"

text \<open>What \<^verbatim>\<open>print\<close> shows for a list of plain strings.\<close>

fun join_comma :: "string list \<Rightarrow> string" where
  "join_comma [] = []"
| "join_comma [x] = x"
| "join_comma (x # y # zs) = x @ '', '' @ join_comma (y # zs)"

definition repr_list :: "string list \<Rightarrow> string" where
  "repr_list xs = ''['' @ join_comma (map (\<lambda>x. [CHR 0x27] @ x @ [CHR 0x27]) xs) @ '']''"

text \<open>
  The relative humidity of MetPy, \<^verbatim>\<open>sh2rh(p, t, q).to('percent')\<close>, is a parameter
  \<open>sh2rh\<close> of the model. When a field is missing the branch prints and assigns
  nothing to \<^verbatim>\<open>ds\<close>, so that \<^verbatim>\<open>return ds\<close> raises.
\<close>

definition rh_branch ::
  "(ndarray \<Rightarrow> ndarray \<Rightarrow> ndarray \<Rightarrow> error + ndarray) \<Rightarrow> wrf_file \<Rightarrow> locals \<Rightarrow> dataset io" where
  "rh_branch sh2rh nc l =
     (case count_elements (variables_keys nc) [''PSFC'', ''T2'', ''Q2''] 0 [] of
        (counter, not_key) \<Rightarrow>
          if counter = 3 then
            lift_io
              (bind_e (nc_getitem nc ''PSFC'') (\<lambda>p.
               bind_e (nc_getitem nc ''T2'') (\<lambda>t.
               bind_e (nc_getitem nc ''Q2'') (\<lambda>q.
               bind_e (sh2rh (np_div_scalar (squeeze p) 100)
                         (np_sub_scalar (squeeze t) zero_celsius) (squeeze q))
                 (\<lambda>rhvar. surface_dataset ''Qair'' rhvar attrs_rh l)))))
          else
            bind_io (print_io [[],
                       '' - - - - - - - - - - - - - - -'',
                       ''not all variables available'',
                       ''program looking in file for : '',
                       repr_list not_key,
                       '' - - - - - - - - - - - - - - -''])
              (\<lambda>_. raise_io (UnboundLocalError ''ds'')))"

text \<open>\<^verbatim>\<open>rainnc + rainc\<close> of one file, both squeezed.\<close>

definition rain_sum :: "wrf_file \<Rightarrow> error + ndarray" where
  "rain_sum nc =
     bind_e (nc_getitem nc ''RAINNC'') (\<lambda>rainnc.
     bind_e (nc_getitem nc ''RAINC'') (\<lambda>rainc.
       np_add (squeeze rainnc) (squeeze rainc)))"

text \<open>
  The \<^verbatim>\<open>PR\<close> branch. \<^verbatim>\<open>if step_b:\<close> holds for a string that is not empty;
  \<^verbatim>\<open>elif step_b == None:\<close> holds when the caller gave none. An empty string
  takes neither, and \<^verbatim>\<open>ds\<close> stays unassigned. Inside, \<^verbatim>\<open>ncvar\<close> is assigned
  when \<^verbatim>\<open>hours == 0\<close> or \<^verbatim>\<open>hours > 0\<close>.
\<close>

definition pr_branch :: "filesystem \<Rightarrow> wrf_file \<Rightarrow> locals \<Rightarrow> kwargs \<Rightarrow> dataset io" where
  "pr_branch fs nc l kw =
     (case step_b kw of
        Some path \<Rightarrow>
          if path \<noteq> [] then
            lift_io
              (bind_e
                 (if hours l = 0 then rain_sum nc
                  else if 0 < hours l then
                    bind_e (rain_sum nc) (\<lambda>ncvar_now.
                    bind_e (open_dataset fs path) (\<lambda>nc_before.
                    bind_e (rain_sum nc_before) (\<lambda>ncvar_before.
                      np_sub ncvar_now ncvar_before)))
                  else Inl (UnboundLocalError ''ncvar''))
                 (\<lambda>ncvar. surface_dataset ''rain'' ncvar attrs_pr l))
          else raise_io (UnboundLocalError ''ds'')
      | None \<Rightarrow>
          bind_io (print_io [[],
                     ''- - - - ERROR - - - - '',
                     ''must be defined step_b'',
                     ''- - - - - - - - - - - '',
                     []])
            (\<lambda>_. return_io empty_dataset))"

text \<open>
  \<^verbatim>\<open>nc.CLDFRA.max(dim='bottom_top').to_dataset()\<close>, then
  \<^verbatim>\<open>ncvar['CLDFRA'].data[:].squeeze()\<close>.
\<close>

definition cldfra_branch :: "wrf_file \<Rightarrow> locals \<Rightarrow> error + dataset" where
  "cldfra_branch nc l =
     (case map_of (variables nc) ''CLDFRA'' of
        None \<Rightarrow> Inl (AttributeError ''CLDFRA'')
      | Some v \<Rightarrow>
          bind_e (max_dim v ''bottom_top'') (\<lambda>m.
            surface_dataset ''cloud'' (squeeze (var_data m)) attrs_cl l))"

text \<open>
  The last test of the chain is \<^verbatim>\<open>var == []\<close>: a string compared with a list,
  which Python evaluates to \<^verbatim>\<open>False\<close> for every string.
\<close>

definition str_eq_list :: "string \<Rightarrow> string list \<Rightarrow> bool" where
  "str_eq_list s xs = False"

subsection \<open>\<^verbatim>\<open>wrf2gfs_params\<close>\<close>

text \<open>
  The chain of tests on \<^verbatim>\<open>var\<close>, ending in \<^verbatim>\<open>return ds\<close>. A name that no
  branch assigned is an \<^verbatim>\<open>UnboundLocalError\<close> where it is read: \<^verbatim>\<open>return ds\<close>
  after a chain of tests of which none held.
\<close>

definition dispatch ::
  "(ndarray \<Rightarrow> ndarray \<Rightarrow> ndarray \<Rightarrow> error + ndarray) \<Rightarrow> filesystem \<Rightarrow> wrf_file \<Rightarrow> locals
     \<Rightarrow> string \<Rightarrow> kwargs \<Rightarrow> dataset io" where
  "dispatch sh2rh fs nc l var kw =
     (if var = ''U10'' then
        lift_io (bind_e (nc_getitem nc var) (\<lambda>x.
          height_dataset ''Uwind'' (squeeze x) attrs_u l))
      else if var = ''V10'' then
        lift_io (bind_e (nc_getitem nc var) (\<lambda>x.
          height_dataset ''Vwind'' (squeeze x) attrs_v l))
      else if var = ''T2'' then
        lift_io (bind_e (nc_getitem nc var) (\<lambda>x.
          surface_dataset ''Tair'' (np_sub_scalar (squeeze x) zero_celsius)
            attrs_t2 l))
      else if var = ''RH'' then rh_branch sh2rh nc l
      else if var = ''PS'' then
        lift_io (bind_e (nc_getitem nc ''PSFC'') (\<lambda>x.
          surface_dataset ''Pair'' (np_div_scalar (squeeze x) 100) attrs_ps l))
      else if var = ''CLDFRA'' then lift_io (cldfra_branch nc l)
      else if var = ''PR'' then pr_branch fs nc l kw
      else if var = ''LW'' then
        lift_io (bind_e (nc_getitem nc ''GLW'') (\<lambda>x.
          surface_dataset ''lwrad_down'' (squeeze x) attrs_lw l))
      else if var = ''SW'' then
        lift_io (bind_e (nc_getitem nc ''SWDOWN'') (\<lambda>x.
          surface_dataset ''swrad'' (squeeze x) attrs_sw l))
      else if str_eq_list var [] then
        bind_io (print_io [[],
                   ''- - - - ERROR - - - - '',
                   ''Not a valid variable'',
                   ''valid values : u10, v10, t2, rh, ps, cldfra, rain, sw, lw'',
                   ''variable given:'' @ var,
                   ''- - - - - - - - - - - '',
                   []])
          (\<lambda>_. return_io empty_dataset)
      else raise_io (UnboundLocalError ''ds''))"

text \<open>
  The whole call. The file system \<open>fs\<close> gives the content of each path that can be
  opened. The result is what the call prints, and the exception it raises or the
  dataset it returns.
\<close>

definition wrf2gfs_params ::
  "(ndarray \<Rightarrow> ndarray \<Rightarrow> ndarray \<Rightarrow> error + ndarray) \<Rightarrow> filesystem \<Rightarrow> string \<Rightarrow> string \<Rightarrow> kwargs
     \<Rightarrow> dataset io" where
  "wrf2gfs_params sh2rh fs namefile varname kw =
     bind_io (lift_io (open_dataset fs namefile)) (\<lambda>nc.
     bind_io (preamble nc kw) (\<lambda>l.
       dispatch sh2rh fs nc l (str_upper varname) kw))"

subsection \<open>Example files\<close>

text \<open>
  A grid of two rows and three columns with one time step, as WRF writes it: shape
  \<open>[1, 2, 3]\<close>, the longitudes the same in every row and the latitudes in every column.
\<close>

definition field32 :: "rat list \<Rightarrow> nc_variable" where
  "field32 xs =
     \<lparr>var_dims = [''Time'', ''south_north'', ''west_east''],
      var_data = \<lparr>dtype = Float32, shape = [1, 2, 3], elems = xs\<rparr>\<rparr>"

definition field64 :: "rat list \<Rightarrow> nc_variable" where
  "field64 xs =
     \<lparr>var_dims = [''Time'', ''south_north'', ''west_east''],
      var_data = \<lparr>dtype = Float64, shape = [1, 2, 3], elems = xs\<rparr>\<rparr>"

definition grid_variables :: "(string \<times> nc_variable) list" where
  "grid_variables =
     [(''XLONG'', field32 [-100, -99, -98, -100, -99, -98]),
      (''XLAT'', field32 [20, 20, 20, 21, 21, 21])]"

text \<open>
  A forecast started on 2023-12-25 at 00:00 and valid six hours later, with
  temperature, pressure and accumulated rain, and without \<^verbatim>\<open>Q2\<close>.
\<close>

definition file_06h :: wrf_file where
  "file_06h =
     \<lparr>Times = Some [''2023-12-25_06:00:00''],
      START_DATE = Some ''2023-12-25_00:00:00'',
      variables = grid_variables @
        [(''T2'', field32 [300, 300, 300, 300, 300, 300]),
         (''PSFC'', field32 [101325, 101325, 101325, 101325, 101325, 101325]),
         (''RAINNC'', field32 [4, 5, 6, 7, 8, 9]),
         (''RAINC'', field32 [1, 1, 2, 2, 3, 3])]\<rparr>"

text \<open>The step before it, valid three hours after the start.\<close>

definition file_03h :: wrf_file where
  "file_03h =
     \<lparr>Times = Some [''2023-12-25_03:00:00''],
      START_DATE = Some ''2023-12-25_00:00:00'',
      variables = grid_variables @
        [(''RAINNC'', field32 [1, 2, 3, 4, 5, 6]),
         (''RAINC'', field32 [0, 1, 1, 1, 2, 2])]\<rparr>"

text \<open>The first step, valid at the start, and a step valid exactly two days later.\<close>

definition file_00h :: wrf_file where
  "file_00h =
     \<lparr>Times = Some [''2023-12-25_00:00:00''],
      START_DATE = Some ''2023-12-25_00:00:00'',
      variables = grid_variables @
        [(''RAINNC'', field32 [1, 2, 3, 4, 5, 6]),
         (''RAINC'', field32 [0, 1, 1, 1, 2, 2])]\<rparr>"

definition file_48h :: wrf_file where
  "file_48h =
     \<lparr>Times = Some [''2023-12-27_00:00:00''],
      START_DATE = Some ''2023-12-25_00:00:00'',
      variables = grid_variables @
        [(''RAINNC'', field32 [10, 20, 30, 40, 50, 60]),
         (''RAINC'', field32 [1, 1, 1, 1, 1, 1])]\<rparr>"

text \<open>The same as the six-hour file with the temperature in binary64.\<close>

definition file_t64 :: wrf_file where
  "file_t64 =
     \<lparr>Times = Some [''2023-12-25_06:00:00''],
      START_DATE = Some ''2023-12-25_00:00:00'',
      variables = grid_variables @ [(''T2'', field64 [300, 300, 300, 300, 300, 300])]\<rparr>"

definition example_fs :: filesystem where
  "example_fs =
     map_of [(''wrfout_06h.nc'', file_06h), (''wrfout_03h.nc'', file_03h),
             (''wrfout_00h.nc'', file_00h), (''wrfout_48h.nc'', file_48h),
             (''wrfout_t64.nc'', file_t64)]"

definition no_kwargs :: kwargs where
  "no_kwargs = \<lparr>yearsince = None, step_b = None\<rparr>"

text \<open>A stand-in for MetPy where the humidity is not reached.\<close>

definition no_sh2rh :: "ndarray \<Rightarrow> ndarray \<Rightarrow> ndarray \<Rightarrow> error + ndarray" where
  "no_sh2rh p t q = Inl ValueError"

text \<open>The local variables that the example files give, with no keyword argument.\<close>

definition example_lon :: ndarray where
  "example_lon = \<lparr>dtype = Float32, shape = [3], elems = [-100, -99, -98]\<rparr>"

definition example_lat :: ndarray where
  "example_lat = \<lparr>dtype = Float32, shape = [2], elems = [20, 21]\<rparr>"

definition example_start :: datetime where
  "example_start = \<lparr>year = 2023, month = 12, day = 25, hour = 0, minute = 0, second = 0\<rparr>"

definition example_locals :: "nat \<Rightarrow> nat \<Rightarrow> rat \<Rightarrow> int \<Rightarrow> locals" where
  "example_locals d h lead_h since =
     \<lparr>valid_time = \<lparr>year = 2023, month = 12, day = d, hour = h, minute = 0, second = 0\<rparr>,
      start_date = example_start, hours = lead_h, lon = example_lon, lat = example_lat,
      hours_since = since,
      attrs_time = [(''units'', ''hours since 2023-01-01T00:00:00Z''),
                    (''calendar'', ''proleptic_gregorian'')]\<rparr>"

definition locals_06h :: locals where
  "locals_06h = example_locals 25 6 6 8598"

definition locals_00h :: locals where
  "locals_00h = example_locals 25 0 0 8592"

definition locals_48h :: locals where
  "locals_48h = example_locals 27 0 0 8640"

subsection \<open>Notions used in the statements\<close>

text \<open>The directives of a format, in their order.\<close>

fun directives :: "fmt_item list \<Rightarrow> directive list" where
  "directives [] = []"
| "directives (Dir d # items) = d # directives items"
| "directives (_ # items) = directives items"

definition days_in_year :: "nat \<Rightarrow> nat" where
  "days_in_year y = (if is_leap y then 366 else 365)"



section \<open>Properties\<close>

subsection \<open>Exceptions as values, and the matcher of \<^verbatim>\<open>strptime\<close>\<close>

lemma bind_e_Inr [simp]: "bind_e (Inr x) f = f x"
  by (simp add: bind_e_def)

lemma bind_e_Inl [simp]: "bind_e (Inl e) f = Inl e"
  by (simp add: bind_e_def)

lemma bind_e_eq_Inr: "bind_e m f = Inr y \<longleftrightarrow> (\<exists>x. m = Inr x \<and> f x = Inr y)"
  by (cases m) simp_all

lemma match_classes_SomeD:
  "match_classes cs s = Some (m, r) \<Longrightarrow> s = m @ r \<and> length m = length cs"
  by (induction cs s arbitrary: m rule: match_classes.induct) (auto split: if_splits)

lemma try_alternatives_SomeD:
  "try_alternatives as s k = Some r \<Longrightarrow>
     \<exists>a \<in> set as. \<exists>m rest. match_classes a s = Some (m, rest) \<and> k m rest = Some r"
  by (induction as) (auto split: option.splits)

lemma try_spaces_SomeD:
  "try_spaces n s k = Some r \<Longrightarrow> \<exists>j. 0 < j \<and> j \<le> n \<and> k (drop j s) = Some r"
proof (induction n)
  case 0
  then show ?case by simp
next
  case (Suc n)
  show ?case
  proof (cases "k (drop (Suc n) s)")
    case None
    with Suc.prems have "try_spaces n s k = Some r" by simp
    with Suc.IH obtain j where "0 < j" "j \<le> n" "k (drop j s) = Some r" by blast
    then show ?thesis by (intro exI [of _ j]) simp
  next
    case (Some r')
    with Suc.prems have "r' = r" by simp
    with Some show ?thesis by (intro exI [of _ "Suc n"]) simp
  qed
qed

lemma regex_match_directives:
  "regex_match items s = Some (found, r) \<Longrightarrow> map fst found = directives items"
proof (induction items arbitrary: s found r)
  case Nil
  then show ?case by simp
next
  case (Cons i items)
  show ?case
  proof (cases i)
    case (Dir d)
    with Cons.prems obtain a rest where
      "map_option (\<lambda>(found, r). ((d, a) # found, r)) (regex_match items rest)
         = Some (found, r)"
      by (auto dest!: try_alternatives_SomeD)
    then obtain found' where "found = (d, a) # found'"
      "regex_match items rest = Some (found', r)"
      by auto
    with Cons.IH Dir show ?thesis by auto
  next
    case (Lit c)
    with Cons.prems Cons.IH show ?thesis
      by (auto split: list.splits if_splits)
  next
    case Spaces
    with Cons.prems obtain j where "regex_match items (drop j s) = Some (found, r)"
      by (auto dest!: try_spaces_SomeD)
    with Cons.IH Spaces show ?thesis by auto
  qed
qed

text \<open>
  A format that ends in white space and a directive: the text ends in what the
  directive matched, after a white-space character.
\<close>

lemma regex_match_last:
  "regex_match (items @ [Spaces, Dir d]) s = Some (found, []) \<Longrightarrow>
     \<exists>p w a. s = p @ [w] @ a \<and> is_space w \<and> (\<exists>alt \<in> set (directive_group d). length a = length alt)
       \<and> found \<noteq> [] \<and> last found = (d, a)"
proof (induction items arbitrary: s found)
  case Nil
  then obtain j where j: "0 < j" "j \<le> length (takeWhile is_space s)"
    and m: "regex_match [Dir d] (drop j s) = Some (found, [])"
    by (auto dest!: try_spaces_SomeD)
  from m obtain alt a rest where a: "alt \<in> set (directive_group d)"
    "match_classes alt (drop j s) = Some (a, rest)" "rest = []" "found = [(d, a)]"
    by (auto dest!: try_alternatives_SomeD)
  from match_classes_SomeD [OF a(2)] a(3) have eq: "drop j s = a" "length a = length alt"
    by simp_all
  have jl: "j \<le> length s"
    using j(2) length_takeWhile_le [of is_space s] by linarith
  with j(1) have ne: "take j s \<noteq> []" by auto
  have "last (take j s) = s ! (j - 1)"
    using ne jl j(1) by (simp add: last_conv_nth)
  also have "\<dots> = takeWhile is_space s ! (j - 1)"
    using j by (simp add: takeWhile_nth)
  finally have sp: "is_space (last (take j s))"
    using j by (metis diff_less less_le_trans nth_mem set_takeWhileD zero_less_one)
  have "s = butlast (take j s) @ [last (take j s)] @ a"
    using ne eq by (metis append_butlast_last_id append_take_drop_id append.assoc append_Cons append_Nil)
  with sp a eq show ?case by auto
next
  case (Cons i items)
  show ?case
  proof (cases i)
    case (Dir d')
    with Cons.prems obtain alt' a' rest found' where
      f: "found = (d', a') # found'"
      and m: "regex_match (items @ [Spaces, Dir d]) rest = Some (found', [])"
      and t: "match_classes alt' s = Some (a', rest)"
      by (auto dest!: try_alternatives_SomeD)
    from Cons.IH [OF m] obtain p w a where
      "rest = p @ [w] @ a" "is_space w" "\<exists>alt \<in> set (directive_group d). length a = length alt"
      "found' \<noteq> []" "last found' = (d, a)"
      by blast
    moreover from this(1) match_classes_SomeD [OF t] have "s = (a' @ p) @ [w] @ a"
      by simp
    ultimately show ?thesis using f by (intro exI [of _ "a' @ p"]) auto
  next
    case (Lit c)
    with Cons.prems obtain s' where s: "s = c # s'"
      and m: "regex_match (items @ [Spaces, Dir d]) s' = Some (found, [])"
      by (auto split: list.splits if_splits)
    from Cons.IH [OF m] obtain p w a where
      "s' = p @ [w] @ a" "is_space w" "\<exists>alt \<in> set (directive_group d). length a = length alt"
      "found \<noteq> []" "last found = (d, a)"
      by blast
    with s show ?thesis by (intro exI [of _ "c # p"]) auto
  next
    case Spaces
    with Cons.prems obtain j where
      m: "regex_match (items @ [Spaces, Dir d]) (drop j s) = Some (found, [])"
      by (auto dest!: try_spaces_SomeD)
    from Cons.IH [OF m] obtain p w a where
      "drop j s = p @ [w] @ a" "is_space w" "\<exists>alt \<in> set (directive_group d). length a = length alt"
      "found \<noteq> []" "last found = (d, a)"
      by blast
    moreover from this(1) have "s = (take j s @ p) @ [w] @ a"
      by (metis append_take_drop_id append.assoc)
    ultimately show ?thesis by (intro exI [of _ "take j s @ p"]) auto
  qed
qed

subsection \<open>What \<^verbatim>\<open>strptime\<close> returns for the formats of the program\<close>

lemma strptime_valid: "strptime s f = Inr t \<Longrightarrow> valid_datetime t"
  by (auto simp: strptime_def datetime_new_def Let_def split: option.splits if_splits prod.splits)

lemma compile_format_Times:
  "compile_format ''%Y-%m-%d_%H:00:00'' =
     Some [Dir DirY, Lit CHR ''-'', Dir Dirm, Lit CHR ''-'', Dir Dird, Lit CHR ''_'', Dir DirH,
           Lit CHR '':'', Lit CHR ''0'', Lit CHR ''0'', Lit CHR '':'', Lit CHR ''0'', Lit CHR ''0'']"
  by (simp add: directive_of_def is_space_def)

lemma compile_format_START_DATE:
  "compile_format ''%Y-%m-%d_%H:%M:%S'' =
     Some [Dir DirY, Lit CHR ''-'', Dir Dirm, Lit CHR ''-'', Dir Dird, Lit CHR ''_'', Dir DirH,
           Lit CHR '':'', Dir DirM, Lit CHR '':'', Dir DirS]"
  by (simp add: directive_of_def is_space_def)

lemma compile_format_since:
  "compile_format ''%Y%m%d %H'' = Some [Dir DirY, Dir Dirm, Dir Dird, Spaces, Dir DirH]"
  by (simp add: directive_of_def is_space_def)

lemma found_field_absent: "d \<notin> fst ` set found \<Longrightarrow> found_field d n found = n"
  by (simp add: found_field_def map_of_eq_None_iff [THEN iffD2])

lemma strptime_Times_on_the_hour:
  assumes "strptime s ''%Y-%m-%d_%H:00:00'' = Inr t"
  shows "minute t = 0 \<and> second t = 0"
proof -
  let ?items = "[Dir DirY, Lit CHR ''-'', Dir Dirm, Lit CHR ''-'', Dir Dird, Lit CHR ''_'', Dir DirH,
           Lit CHR '':'', Lit CHR ''0'', Lit CHR ''0'', Lit CHR '':'', Lit CHR ''0'', Lit CHR ''0'']"
  from assms obtain found where m: "regex_match ?items s = Some (found, [])"
    and t: "datetime_new (found_field DirY 1900 found) (found_field Dirm 1 found)
              (found_field Dird 1 found) (found_field DirH 0 found)
              (found_field DirM 0 found) (found_field DirS 0 found) = Inr t"
    unfolding strptime_def compile_format_Times
    by (auto split: option.splits if_splits prod.splits)
  from regex_match_directives [OF m] have "map fst found = [DirY, Dirm, Dird, DirH]" by simp
  then have "fst ` set found = {DirY, Dirm, Dird, DirH}"
    by (metis list.set_map list.simps(15) empty_set)
  then have "found_field DirM 0 found = 0" "found_field DirS 0 found = 0"
    by (simp_all add: found_field_absent)
  with t show ?thesis
    by (auto simp: datetime_new_def Let_def split: if_splits)
qed

lemma group_DirH_length:
  "alt \<in> set (directive_group DirH) \<Longrightarrow> length alt = 1 \<or> length alt = 2"
  by (auto simp: directive_group_def Let_def)

lemma int_of_str_00: "int_of_str ''00'' = 0"
  by (simp add: int_of_str_def is_digit_def digit_val_def)

lemma date_since_midnight:
  assumes "date_since y = Inr e"
  shows "hour e = 0 \<and> minute e = 0 \<and> second e = 0"
proof -
  let ?s = "str_int y @ ''0101 00''"
  from assms obtain found where
    m: "regex_match ([Dir DirY, Dir Dirm, Dir Dird] @ [Spaces, Dir DirH]) ?s = Some (found, [])"
    and t: "datetime_new (found_field DirY 1900 found) (found_field Dirm 1 found)
              (found_field Dird 1 found) (found_field DirH 0 found)
              (found_field DirM 0 found) (found_field DirS 0 found) = Inr e"
    unfolding date_since_def strptime_def compile_format_since
    by (auto split: option.splits if_splits prod.splits)
  from regex_match_directives [OF m] have dirs: "map fst found = [DirY, Dirm, Dird, DirH]"
    by simp
  then have "fst ` set found = {DirY, Dirm, Dird, DirH}"
    by (metis list.set_map list.simps(15) empty_set)
  then have ms: "found_field DirM 0 found = 0" "found_field DirS 0 found = 0"
    by (simp_all add: found_field_absent)
  from regex_match_last [OF m] obtain p w a where
    s: "?s = p @ [w] @ a" and w: "is_space w"
    and a: "\<exists>alt \<in> set (directive_group DirH). length a = length alt"
    and l: "last found = (DirH, a)"
    by blast
  from a group_DirH_length have "length a = 1 \<or> length a = 2" by metis
  then have a00: "a = ''00''"
  proof
    assume "length a = 1"
    then obtain x where "a = [x]" by (cases a) auto
    with s have "w = CHR ''0''" by auto
    with w show ?thesis by (simp add: is_space_def)
  next
    assume "length a = 2"
    then obtain x z where "a = [x, z]" by (cases a; cases "tl a") auto
    with s show ?thesis by auto
  qed
  from dirs obtain a1 a2 a3 a4 where f: "found = [(DirY, a1), (Dirm, a2), (Dird, a3), (DirH, a4)]"
    by (auto simp: map_eq_Cons_conv)
  with l a00 have "found_field DirH 0 found = 0"
    by (simp add: found_field_def int_of_str_00)
  with t ms show ?thesis
    by (auto simp: datetime_new_def Let_def split: if_splits)
qed

subsection \<open>The calendar\<close>

lemma int_div_step:
  fixes i k :: int
  assumes "0 < k"
  shows "i div k = (i - 1) div k + (if k dvd i then 1 else 0)"
proof (cases "k dvd i")
  case True
  then obtain j where i: "i = k * j" by (auto simp: dvd_def)
  have "i - 1 = k * (j - 1) + (k - 1)" by (simp add: i algebra_simps)
  then have "(i - 1) div k = j - 1"
    using assms by (intro int_div_pos_eq [where r = "k - 1"]) simp_all
  moreover have "i div k = j" using assms i by simp
  ultimately show ?thesis using True by simp
next
  case False
  with assms have "0 < i mod k"
    by (metis dvd_eq_mod_eq_0 less_le pos_mod_sign)
  moreover have "i mod k < k" using assms by simp
  moreover have "i - 1 = k * (i div k) + (i mod k - 1)" by simp
  ultimately have "(i - 1) div k = i div k"
    by (intro int_div_pos_eq [where r = "i mod k - 1"]) simp_all
  with False show ?thesis by simp
qed

lemma days_in_year_dvd:
  "int (days_in_year y) =
     365 + (if 4 dvd y then 1 else 0) - (if 100 dvd y then 1 else 0)
         + (if 400 dvd y then 1 else 0)"
proof -
  have "400 dvd y \<Longrightarrow> 100 dvd y" by (rule dvd_trans [of 100 400]) simp_all
  moreover have "100 dvd y \<Longrightarrow> 4 dvd y" by (rule dvd_trans [of 4 100]) simp_all
  ultimately show ?thesis
    by (auto simp: days_in_year_def is_leap_def)
qed

lemma days_before_year_Suc:
  "days_before_year (Suc y) = days_before_year y + int (days_in_year y)"
proof -
  have d: "int y div k = (int y - 1) div k + (if nat k dvd y then 1 else 0)" if "0 < k" for k
    using int_div_step [OF that, of "int y"] that
    by (simp add: int_dvd_int_iff [symmetric] del: int_dvd_int_iff)
  show ?thesis
    using d [of 4] d [of 100] d [of 400]
    by (simp add: days_before_year_def Let_def days_in_year_dvd algebra_simps)
qed

lemma days_before_year_mono: "y \<le> y' \<Longrightarrow> days_before_year y \<le> days_before_year y'"
  by (induction rule: dec_induct) (simp_all add: days_before_year_Suc)

lemma month_cases:
  assumes "1 \<le> m" "m \<le> (12::nat)"
  shows "m = 1 \<or> m = 2 \<or> m = 3 \<or> m = 4 \<or> m = 5 \<or> m = 6 \<or> m = 7 \<or> m = 8 \<or> m = 9
         \<or> m = 10 \<or> m = 11 \<or> m = 12"
  using assms by arith

lemma days_before_month_Suc:
  assumes "1 \<le> m" "m \<le> 11"
  shows "days_before_month y (Suc m) = days_before_month y m + days_in_month y m"
proof -
  from assms have "m = 1 \<or> m = 2 \<or> m = 3 \<or> m = 4 \<or> m = 5 \<or> m = 6 \<or> m = 7 \<or> m = 8 \<or> m = 9
         \<or> m = 10 \<or> m = 11" by arith
  then show ?thesis
    by (elim disjE) (simp_all add: days_before_month_def days_in_month_def)
qed

lemma days_before_month_12:
  "days_before_month y 12 + days_in_month y 12 = days_in_year y"
  by (simp add: days_before_month_def days_in_month_def days_in_year_def)

lemma days_before_month_mono:
  assumes "m \<le> m'" "1 \<le> m" "m' \<le> 12"
  shows "days_before_month y m \<le> days_before_month y m'"
  using assms
proof (induction m' rule: dec_induct)
  case base
  then show ?case by simp
next
  case (step n)
  then have "days_before_month y (Suc n) = days_before_month y n + days_in_month y n"
    by (intro days_before_month_Suc) simp_all
  with step show ?case by simp
qed

lemma month_end_le:
  assumes "1 \<le> m" "m < m'" "m' \<le> 12"
  shows "days_before_month y m + days_in_month y m \<le> days_before_month y m'"
proof -
  from assms have "days_before_month y (Suc m) = days_before_month y m + days_in_month y m"
    by (intro days_before_month_Suc) simp_all
  moreover from assms have "days_before_month y (Suc m) \<le> days_before_month y m'"
    by (intro days_before_month_mono) simp_all
  ultimately show ?thesis by simp
qed

lemma year_end_le:
  assumes "1 \<le> m" "m \<le> 12"
  shows "days_before_month y m + days_in_month y m \<le> days_in_year y"
proof (cases "m = 12")
  case True
  then show ?thesis by (simp add: days_before_month_12)
next
  case False
  with assms have "days_before_month y m + days_in_month y m \<le> days_before_month y 12"
    by (intro month_end_le) simp_all
  then show ?thesis using days_before_month_12 [of y] by simp
qed

text \<open>The ordinal follows the order of the dates.\<close>

lemma ymd2ord_less:
  assumes "1 \<le> m" "m \<le> 12" "d \<le> days_in_month y m"
    and "1 \<le> m'" "m' \<le> 12" "1 \<le> d'"
    and "y < y' \<or> (y = y' \<and> (m < m' \<or> (m = m' \<and> d < d')))"
  shows "ymd2ord y m d < ymd2ord y' m' d'"
proof -
  consider "y < y'" | "y = y'" "m < m'" | "y = y'" "m = m'" "d < d'"
    using assms(7) by blast
  then show ?thesis
  proof cases
    case 1
    have "ymd2ord y m d \<le> days_before_year y + int (days_in_year y)"
      using year_end_le [OF assms(1,2), of y] assms(3) by (simp add: ymd2ord_def)
    also have "\<dots> = days_before_year (Suc y)" by (simp add: days_before_year_Suc)
    also have "\<dots> \<le> days_before_year y'" using 1 by (intro days_before_year_mono) simp
    also have "\<dots> < ymd2ord y' m' d'" using assms(6) by (simp add: ymd2ord_def)
    finally show ?thesis .
  next
    case 2
    have "days_before_month y m + d \<le> days_before_month y m'"
      using month_end_le [OF assms(1) 2(2) assms(5), of y] assms(3) by simp
    then show ?thesis using 2(1) assms(6) by (simp add: ymd2ord_def)
  next
    case 3
    then show ?thesis by (simp add: ymd2ord_def)
  qed
qed

lemma datetime_le_ordinal:
  assumes "valid_datetime a" "valid_datetime b" "datetime_le a b"
  shows "toordinal a < toordinal b \<or> (toordinal a = toordinal b \<and> hour a \<le> hour b)"
proof (cases "year a = year b \<and> month a = month b \<and> day a = day b")
  case True
  with assms(3) show ?thesis by (auto simp: datetime_le_def toordinal_def)
next
  case False
  with assms(3) have "year a < year b \<or> (year a = year b \<and> (month a < month b
      \<or> (month a = month b \<and> day a < day b)))"
    by (auto simp: datetime_le_def)
  with assms(1,2) have "toordinal a < toordinal b"
    unfolding toordinal_def valid_datetime_def by (intro ymd2ord_less) simp_all
  then show ?thesis by simp
qed

lemma secs_of_day_range: "valid_datetime t \<Longrightarrow> 0 \<le> secs_of_day t \<and> secs_of_day t < 86400"
  by (simp add: valid_datetime_def secs_of_day_def)

lemma hours_since_epoch_midnight:
  assumes "valid_datetime t" "hour e = 0" "minute e = 0" "second e = 0"
  shows "hours_since_epoch t e = (toordinal t - toordinal e) * 24 + int (hour t)"
  using secs_of_day_range [OF assms(1)] assms(2-4)
  by (simp add: hours_since_epoch_def datetime_sub_def timedelta_new_def secs_of_day_def)

subsection \<open>Printing and raising\<close>

lemma bind_io_lift_Inr [simp]: "bind_io (lift_io (Inr x)) f = f x"
  by (simp add: bind_io_def lift_io_def split: prod.splits)

lemma bind_io_lift_Inl [simp]: "bind_io (lift_io (Inl e)) f = ([], Inl e)"
  by (simp add: bind_io_def lift_io_def)

lemma bind_io_Inr [simp]: "bind_io (out, Inr x) f = (out @ fst (f x), snd (f x))"
  by (simp add: bind_io_def split: prod.splits)

lemma bind_io_Inl [simp]: "bind_io (out, Inl e) f = (out, Inl e)"
  by (simp add: bind_io_def)

lemma bind_io_return [simp]: "bind_io (return_io x) f = f x"
  by (simp add: return_io_def)

lemma bind_io_print [simp]: "bind_io (print_io ls) f = (ls @ fst (f ()), snd (f ()))"
  by (simp add: print_io_def)

lemma bind_io_eq_Inr:
  "bind_io m f = (out, Inr y) \<longleftrightarrow>
     (\<exists>o1 x o2. m = (o1, Inr x) \<and> f x = (o2, Inr y) \<and> out = o1 @ o2)"
  by (cases m; cases "snd m") (auto simp: bind_io_def split: prod.splits)

lemma lift_io_eq_Inr [simp]: "lift_io r = (out, Inr x) \<longleftrightarrow> out = [] \<and> r = Inr x"
  by (auto simp: lift_io_def)

lemma return_io_eq [simp]: "return_io x = (out, r) \<longleftrightarrow> out = [] \<and> r = Inr x"
  by (auto simp: return_io_def)

lemma io_projections [simp]:
  "fst (lift_io r) = []" "snd (lift_io r) = r"
  "fst (return_io x) = []" "snd (return_io x) = Inr x"
  "fst (raise_io e) = []" "snd (raise_io e) = Inl e"
  "fst (print_io ls) = ls" "snd (print_io ls) = Inr ()"
  by (simp_all add: lift_io_def return_io_def raise_io_def print_io_def)

text \<open>What the statements before the dispatch have computed when they succeed.\<close>

lemma preamble_InrD:
  assumes "preamble nc kw = (out, Inr l)"
  shows "\<exists>T S y e xlong xlat.
           read_Times nc = Inr T \<and> strptime T ''%Y-%m-%d_%H:00:00'' = Inr (valid_time l) \<and>
           read_START_DATE nc = Inr S \<and> strptime S ''%Y-%m-%d_%H:%M:%S'' = Inr (start_date l) \<and>
           resolve_yearsice kw (start_date l) = (out, Inr y) \<and> date_since y = Inr e \<and>
           nc_getitem nc ''XLONG'' = Inr xlong \<and> nc_getitem nc ''XLAT'' = Inr xlat \<and>
           collapse_lon xlong = Inr (lon l) \<and> collapse_lat xlat = Inr (lat l) \<and>
           hours l = lead_hours (valid_time l) (start_date l) \<and>
           hours_since l = hours_since_epoch (valid_time l) e \<and>
           attrs_time l = time_attrs e"
  using assms unfolding preamble_def
  by (auto simp: bind_io_eq_Inr bind_e_eq_Inr simp del: bind_io_Inr)

lemma wrf2gfs_params_dispatch:
  assumes "open_dataset fs namefile = Inr nc" "preamble nc kw = (out, Inr l)"
  shows "wrf2gfs_params sh2rh fs namefile varname kw =
           (out @ fst (dispatch sh2rh fs nc l (str_upper varname) kw),
            snd (dispatch sh2rh fs nc l (str_upper varname) kw))"
  using assms by (simp add: wrf2gfs_params_def)

subsection \<open>The examples, evaluated\<close>

lemmas time_eval =
  strptime_def directive_of_def is_space_def directive_group_def Let_def found_field_def
  int_of_str_def is_digit_def digit_val_def datetime_new_def valid_datetime_def
  days_in_month_def is_leap_def str_int_def str_nat.simps digit_chr_def zfill2_def
  date_since_def strftime_since_def time_attrs_def lead_hours_def hours_since_epoch_def
  datetime_sub_def timedelta_new_def toordinal_def ymd2ord_def days_before_year_def
  days_before_month_def secs_of_day_def

lemmas file_eval =
  read_Times_def read_START_DATE_def nc_getitem_def grid_variables_def field32_def
  field64_def collapse_lon_def collapse_lat_def squeeze_def row0_def col0_def
  resolve_yearsice_def no_kwargs_def example_locals_def example_lon_def example_lat_def
  example_start_def

text \<open>The example files, evaluated.\<close>

lemma preamble_file_06h_any:
  "preamble file_06h \<lparr>yearsince = None, step_b = sb\<rparr> = ([], Inr locals_06h)"
  by (simp add: preamble_def file_06h_def locals_06h_def time_eval file_eval upt_rec)

lemma preamble_file_00h_any:
  "preamble file_00h \<lparr>yearsince = None, step_b = sb\<rparr> = ([], Inr locals_00h)"
  by (simp add: preamble_def file_00h_def locals_00h_def time_eval file_eval upt_rec)

lemma preamble_file_48h_any:
  "preamble file_48h \<lparr>yearsince = None, step_b = sb\<rparr> = ([], Inr locals_48h)"
  by (simp add: preamble_def file_48h_def locals_48h_def time_eval file_eval upt_rec)


lemma preamble_file_06h: "preamble file_06h no_kwargs = ([], Inr locals_06h)"
  unfolding no_kwargs_def by (rule preamble_file_06h_any)

lemma preamble_file_00h: "preamble file_00h no_kwargs = ([], Inr locals_00h)"
  unfolding no_kwargs_def by (rule preamble_file_00h_any)

lemma preamble_file_48h: "preamble file_48h no_kwargs = ([], Inr locals_48h)"
  unfolding no_kwargs_def by (rule preamble_file_48h_any)

lemma example_opens:
  "open_dataset example_fs ''wrfout_06h.nc'' = Inr file_06h"
  "open_dataset example_fs ''wrfout_03h.nc'' = Inr file_03h"
  "open_dataset example_fs ''wrfout_00h.nc'' = Inr file_00h"
  "open_dataset example_fs ''wrfout_48h.nc'' = Inr file_48h"
  "open_dataset example_fs ''wrfout_t64.nc'' = Inr file_t64"
  "open_dataset example_fs ''no_such_file.nc'' = Inl (FileNotFoundError ''no_such_file.nc'')"
  by (simp_all add: open_dataset_def example_fs_def)

lemma example_locals_simps [simp]:
  "hours locals_06h = 6" "hours locals_00h = 0" "hours locals_48h = 0"
  "lat locals_06h = example_lat" "lat locals_00h = example_lat" "lat locals_48h = example_lat"
  "lon locals_06h = example_lon" "lon locals_00h = example_lon" "lon locals_48h = example_lon"
  "shape example_lat = [2]" "shape example_lon = [3]"
  by (simp_all add: locals_06h_def locals_00h_def locals_48h_def example_locals_def
      example_lat_def example_lon_def)

lemma example_rain:
  "nc_getitem file_06h ''RAINNC'' = Inr \<lparr>dtype = Float32, shape = [1, 2, 3], elems = [4, 5, 6, 7, 8, 9]\<rparr>"
  "nc_getitem file_06h ''RAINC'' = Inr \<lparr>dtype = Float32, shape = [1, 2, 3], elems = [1, 1, 2, 2, 3, 3]\<rparr>"
  "nc_getitem file_03h ''RAINNC'' = Inr \<lparr>dtype = Float32, shape = [1, 2, 3], elems = [1, 2, 3, 4, 5, 6]\<rparr>"
  "nc_getitem file_03h ''RAINC'' = Inr \<lparr>dtype = Float32, shape = [1, 2, 3], elems = [0, 1, 1, 1, 2, 2]\<rparr>"
  "nc_getitem file_00h ''RAINNC'' = Inr \<lparr>dtype = Float32, shape = [1, 2, 3], elems = [1, 2, 3, 4, 5, 6]\<rparr>"
  "nc_getitem file_00h ''RAINC'' = Inr \<lparr>dtype = Float32, shape = [1, 2, 3], elems = [0, 1, 1, 1, 2, 2]\<rparr>"
  "nc_getitem file_48h ''RAINNC'' = Inr \<lparr>dtype = Float32, shape = [1, 2, 3], elems = [10, 20, 30, 40, 50, 60]\<rparr>"
  "nc_getitem file_48h ''RAINC'' = Inr \<lparr>dtype = Float32, shape = [1, 2, 3], elems = [1, 1, 1, 1, 1, 1]\<rparr>"
  by (simp_all add: nc_getitem_def file_06h_def file_03h_def file_00h_def file_48h_def
      grid_variables_def field32_def)


lemma squeeze_example [simp]:
  "shape (squeeze \<lparr>dtype = d, shape = [1, 2, 3], elems = xs\<rparr>) = [2, 3]"
  by (simp add: squeeze_def)

lemma str_upper_examples:
  "str_upper ''pr'' = ''PR''" "str_upper ''t2'' = ''T2''" "str_upper ''rh'' = ''RH''"
  "str_upper ''xyz'' = ''XYZ''"
  by (simp_all add: str_upper_def upper_char_def)

text \<open>Rounding to binary32 and binary64 at the numbers of the examples.\<close>

lemma float32_sums:
  "map2 (fl_op Float32 (+)) [1, 2, 3, 4, 5, 6] [0, 1, 1, 1, 2, 2] = [1, 3, 4, 5, 7, 8]"
  "map2 (fl_op Float32 (+)) [4, 5, 6, 7, 8, 9] [1, 1, 2, 2, 3, 3] = [5, 6, 8, 9, 11, 12]"
  "map2 (fl_op Float32 (+)) [10, 20, 30, 40, 50, 60] [1, 1, 1, 1, 1, 1] = [11, 21, 31, 41, 51, 61]"
  "map2 (fl_op Float32 (-)) [5, 6, 8, 9, 11, 12] [1, 3, 4, 5, 7, 8] = [4, 3, 4, 4, 4, 4]"
  by code_simp+


subsection \<open>Lead time and hours since the epoch\<close>

lemma strptime_secs_of_day:
  assumes "strptime T ''%Y-%m-%d_%H:00:00'' = Inr t"
  shows "secs_of_day t = int (hour t) * 3600"
  using strptime_Times_on_the_hour [OF assms] by (simp add: secs_of_day_def)

lemma lead_hours_clock:
  "lead_hours b s = of_int ((secs_of_day b - secs_of_day s) mod 86400) / 3600"
  by (simp add: lead_hours_def datetime_sub_def timedelta_new_def)

text \<open>
  C6. When the statements before the dispatch succeed, \<^verbatim>\<open>hours\<close> is the seconds
  of the normalised difference of the valid time and the start date, divided by 3600.
  It is the difference of the two clock times modulo one day: the dates do not
  occur in it, so two runs with the same clock times have the same \<^verbatim>\<open>hours\<close>,
  however many whole days lie between start and valid time.
\<close>

theorem lead_hours_sub_day:
  assumes "preamble nc kw = (out, Inr l)"
  shows "hours l = of_int (seconds (datetime_sub (valid_time l) (start_date l))) / 3600 \<and>
         hours l = of_int ((int (hour (valid_time l)) * 3600 - secs_of_day (start_date l))
                     mod 86400) / 3600 \<and>
         (\<forall>nc' kw' out' l'.
            preamble nc' kw' = (out', Inr l') \<and> hour (valid_time l') = hour (valid_time l) \<and>
            secs_of_day (start_date l') = secs_of_day (start_date l)
            \<longrightarrow> hours l' = hours l)"
proof -
  have clock: "hours k = of_int ((int (hour (valid_time k)) * 3600 - secs_of_day (start_date k))
                     mod 86400) / 3600"
    if "preamble f w = (o', Inr k)" for f w o' k
  proof -
    from preamble_InrD [OF that] obtain T where
      "strptime T ''%Y-%m-%d_%H:00:00'' = Inr (valid_time k)"
      "hours k = lead_hours (valid_time k) (start_date k)"
      by blast
    then show ?thesis by (simp add: lead_hours_clock strptime_secs_of_day)
  qed
  from preamble_InrD [OF assms]
  have "hours l = of_int (seconds (datetime_sub (valid_time l) (start_date l))) / 3600"
    by (auto simp: lead_hours_def)
  moreover note clock [OF assms]
  moreover have "hours l' = hours l"
    if "preamble nc' kw' = (out', Inr l')" "hour (valid_time l') = hour (valid_time l)"
      "secs_of_day (start_date l') = secs_of_day (start_date l)" for nc' kw' out' l'
    using clock [OF that(1)] clock [OF assms] that(2,3) by simp
  ultimately show ?thesis by blast
qed

theorem lead_hours_sub_day_witness:
  "preamble file_48h no_kwargs = ([], Inr locals_48h) \<and>
   preamble file_00h no_kwargs = ([], Inr locals_00h) \<and>
   hours locals_48h = of_int ((0 * 3600 - 0) mod 86400) / 3600 \<and>
   hours locals_00h = hours locals_48h"
  using lead_hours_sub_day [OF preamble_file_48h] preamble_file_48h preamble_file_00h
  by (simp add: locals_48h_def locals_00h_def example_locals_def)

text \<open>
  C7. For one reference epoch, built from a year as the program builds it, and two
  valid times parsed from \<^verbatim>\<open>Times\<close> with the first not after the second,
  \<^verbatim>\<open>hours_since\<close> of the first is at most that of the second. The value is the
  integer: days between the dates, times 24, plus the hour of the valid time.
\<close>

theorem hours_since_monotone:
  assumes "date_since y = Inr e"
    and "strptime T1 ''%Y-%m-%d_%H:00:00'' = Inr t1"
    and "strptime T2 ''%Y-%m-%d_%H:00:00'' = Inr t2"
    and "datetime_le t1 t2"
  shows "hours_since_epoch t1 e \<le> hours_since_epoch t2 e \<and>
         hours_since_epoch t1 e = (toordinal t1 - toordinal e) * 24 + int (hour t1) \<and>
         hours_since_epoch t2 e = (toordinal t2 - toordinal e) * 24 + int (hour t2)"
proof -
  note mid = date_since_midnight [OF assms(1)]
  note v1 = strptime_valid [OF assms(2)] and v2 = strptime_valid [OF assms(3)]
  have h1: "hours_since_epoch t1 e = (toordinal t1 - toordinal e) * 24 + int (hour t1)"
    using v1 mid by (intro hours_since_epoch_midnight) simp_all
  have h2: "hours_since_epoch t2 e = (toordinal t2 - toordinal e) * 24 + int (hour t2)"
    using v2 mid by (intro hours_since_epoch_midnight) simp_all
  have "hour t1 < 24" using v1 by (simp add: valid_datetime_def)
  moreover from datetime_le_ordinal [OF v1 v2 assms(4)]
  have "toordinal t1 < toordinal t2 \<or> (toordinal t1 = toordinal t2 \<and> hour t1 \<le> hour t2)" .
  ultimately have "(toordinal t1 - toordinal e) * 24 + int (hour t1)
      \<le> (toordinal t2 - toordinal e) * 24 + int (hour t2)"
    by auto
  with h1 h2 show ?thesis by simp
qed

lemma date_since_2023:
  "date_since 2023 = Inr \<lparr>year = 2023, month = 1, day = 1, hour = 0, minute = 0, second = 0\<rparr>"
  by (simp add: time_eval)

lemma strptime_06h:
  "strptime ''2023-12-25_06:00:00'' ''%Y-%m-%d_%H:00:00''
     = Inr \<lparr>year = 2023, month = 12, day = 25, hour = 6, minute = 0, second = 0\<rparr>"
  by (simp add: time_eval)

lemma strptime_48h:
  "strptime ''2023-12-27_00:00:00'' ''%Y-%m-%d_%H:00:00''
     = Inr \<lparr>year = 2023, month = 12, day = 27, hour = 0, minute = 0, second = 0\<rparr>"
  by (simp add: time_eval)

theorem hours_since_monotone_witness:
  "hours_since_epoch \<lparr>year = 2023, month = 12, day = 25, hour = 6, minute = 0, second = 0\<rparr>
       \<lparr>year = 2023, month = 1, day = 1, hour = 0, minute = 0, second = 0\<rparr> = 8598 \<and>
   hours_since_epoch \<lparr>year = 2023, month = 12, day = 27, hour = 0, minute = 0, second = 0\<rparr>
       \<lparr>year = 2023, month = 1, day = 1, hour = 0, minute = 0, second = 0\<rparr> = 8640 \<and>
   hours_since_epoch \<lparr>year = 2023, month = 12, day = 25, hour = 6, minute = 0, second = 0\<rparr>
       \<lparr>year = 2023, month = 1, day = 1, hour = 0, minute = 0, second = 0\<rparr>
     \<le> hours_since_epoch \<lparr>year = 2023, month = 12, day = 27, hour = 0, minute = 0, second = 0\<rparr>
       \<lparr>year = 2023, month = 1, day = 1, hour = 0, minute = 0, second = 0\<rparr>"
proof -
  have le: "datetime_le \<lparr>year = 2023, month = 12, day = 25, hour = 6, minute = 0, second = 0\<rparr>
     \<lparr>year = 2023, month = 12, day = 27, hour = 0, minute = 0, second = 0\<rparr>"
    by (simp add: datetime_le_def)
  from hours_since_monotone [OF date_since_2023 strptime_06h strptime_48h le]
  show ?thesis by (simp add: time_eval)
qed

subsection \<open>Arrays and datasets\<close>

lemma np_binop_same_shape:
  assumes "shape a = shape b"
  shows "np_binop f a b =
           Inr \<lparr>dtype = promote (dtype a) (dtype b), shape = shape a,
                elems = map2 (fl_op (promote (dtype a) (dtype b)) f) (elems a) (elems b)\<rparr>"
  using assms by (simp add: np_binop_def is_tail_def lead_def tile_def Let_def)

text \<open>
  A field of \<open>n\<close> rows and \<open>m\<close> columns goes into a dataset when the coordinates
  have \<open>n\<close> latitudes and \<open>m\<close> longitudes.
\<close>

lemma surface_dataset_on_grid:
  assumes "shape ncvar = [n, m]" "shape (lat l) = [n]" "shape (lon l) = [m]"
  shows "surface_dataset name ncvar a l =
           Inr \<lparr>data_vars = [(name, \<lparr>dims = [''time'', ''lat'', ''lon''],
                                      data = ncvar\<lparr>shape := [1, n, m]\<rparr>, attrs = a\<rparr>)],
                coords = [coord_time l, coord_lat l, coord_lon l]\<rparr>"
  using assms
  by (simp add: surface_dataset_def newaxis1_def ndim_def xr_Dataset_def variable_ok_def
      dim_sizes_def sizes_agree_def coord_time_def coord_lat_def coord_lon_def int_array_def)

lemma rain_sum_on_grid:
  assumes "nc_getitem nc ''RAINNC'' = Inr rainnc" "nc_getitem nc ''RAINC'' = Inr rainc"
    and "shape (squeeze rainnc) = [n, m]" "shape (squeeze rainc) = [n, m]"
  shows "rain_sum nc =
           Inr \<lparr>dtype = promote (dtype rainnc) (dtype rainc), shape = [n, m],
                elems = map2 (fl_op (promote (dtype rainnc) (dtype rainc)) (+))
                          (elems rainnc) (elems rainc)\<rparr>"
  using assms
  by (simp add: rain_sum_def np_add_def np_binop_same_shape) (simp add: squeeze_def)

subsection \<open>The precipitation branch\<close>

text \<open>
  C5. For the key \<^verbatim>\<open>PR\<close> with a positive lead time and no \<^verbatim>\<open>step_b\<close>, the call
  prints the error block and returns the empty dataset; it does not raise.
\<close>

theorem pr_without_step_b:
  assumes "open_dataset fs namefile = Inr nc" "preamble nc kw = (out, Inr l)"
    and "str_upper varname = ''PR''" "0 < hours l" "step_b kw = None"
  shows "wrf2gfs_params sh2rh fs namefile varname kw =
           (out @ [[], ''- - - - ERROR - - - - '', ''must be defined step_b'',
                   ''- - - - - - - - - - - '', []],
            Inr empty_dataset)"
  using assms
  by (simp add: wrf2gfs_params_dispatch [OF assms(1,2)] dispatch_def pr_branch_def)

theorem pr_without_step_b_witness:
  "hours locals_06h = 6 \<and>
   wrf2gfs_params no_sh2rh example_fs ''wrfout_06h.nc'' ''pr'' no_kwargs =
     ([[], ''- - - - ERROR - - - - '', ''must be defined step_b'', ''- - - - - - - - - - - '', []],
      Inr \<lparr>data_vars = [], coords = []\<rparr>)"
proof -
  have h: "0 < hours locals_06h" by simp
  have s: "step_b no_kwargs = None" by (simp add: no_kwargs_def)
  from pr_without_step_b [OF example_opens(1) preamble_file_06h str_upper_examples(1) h s,
      of no_sh2rh]
  show ?thesis by (simp add: empty_dataset_def)
qed

text \<open>
  C3, as amended. For the key \<^verbatim>\<open>PR\<close> with lead time 0 and a \<^verbatim>\<open>step_b\<close> that
  is not empty, the rain field is \<^verbatim>\<open>RAINNC + RAINC\<close> of the current file,
  element by element. The result does not mention the file system at the path
  \<^verbatim>\<open>step_b\<close>: that file is not read and need not exist.
\<close>

theorem pr_zero_lead:
  assumes "open_dataset fs namefile = Inr nc" "preamble nc kw = (out, Inr l)"
    and "str_upper varname = ''PR''" "hours l = 0" "step_b kw = Some path" "path \<noteq> []"
    and "nc_getitem nc ''RAINNC'' = Inr rainnc" "nc_getitem nc ''RAINC'' = Inr rainc"
    and "shape (squeeze rainnc) = [n, m]" "shape (squeeze rainc) = [n, m]"
    and "shape (lat l) = [n]" "shape (lon l) = [m]"
  shows "wrf2gfs_params sh2rh fs namefile varname kw =
           (out,
            Inr \<lparr>data_vars =
                   [(''rain'',
                     \<lparr>dims = [''time'', ''lat'', ''lon''],
                      data = \<lparr>dtype = promote (dtype rainnc) (dtype rainc), shape = [1, n, m],
                               elems = map2 (fl_op (promote (dtype rainnc) (dtype rainc)) (+))
                                         (elems rainnc) (elems rainc)\<rparr>,
                      attrs = attrs_pr\<rparr>)],
                 coords = [coord_time l, coord_lat l, coord_lon l]\<rparr>)"
proof -
  note r = rain_sum_on_grid [OF assms(7-10)]
  show ?thesis
    using assms(3-6)
    by (simp add: wrf2gfs_params_dispatch [OF assms(1,2)] dispatch_def pr_branch_def r
        surface_dataset_on_grid [OF _ assms(11,12)])
qed

text \<open>
  C4. For the key \<^verbatim>\<open>PR\<close> with a positive lead time and a \<^verbatim>\<open>step_b\<close> that
  opens, the rain field is \<^verbatim>\<open>RAINNC + RAINC\<close> of the current file minus
  \<^verbatim>\<open>RAINNC + RAINC\<close> of the file at \<^verbatim>\<open>step_b\<close>, element by element.
\<close>

theorem pr_difference:
  assumes "open_dataset fs namefile = Inr nc" "preamble nc kw = (out, Inr l)"
    and "str_upper varname = ''PR''" "0 < hours l" "step_b kw = Some path" "path \<noteq> []"
    and "open_dataset fs path = Inr nc_before"
    and "nc_getitem nc ''RAINNC'' = Inr rainnc" "nc_getitem nc ''RAINC'' = Inr rainc"
    and "shape (squeeze rainnc) = [n, m]" "shape (squeeze rainc) = [n, m]"
    and "nc_getitem nc_before ''RAINNC'' = Inr rainnc_b"
    and "nc_getitem nc_before ''RAINC'' = Inr rainc_b"
    and "shape (squeeze rainnc_b) = [n, m]" "shape (squeeze rainc_b) = [n, m]"
    and "shape (lat l) = [n]" "shape (lon l) = [m]"
  shows "wrf2gfs_params sh2rh fs namefile varname kw =
           (out,
            Inr \<lparr>data_vars =
                   [(''rain'',
                     \<lparr>dims = [''time'', ''lat'', ''lon''],
                      data =
                        (let d_now = promote (dtype rainnc) (dtype rainc);
                             d_before = promote (dtype rainnc_b) (dtype rainc_b);
                             d = promote d_now d_before
                         in \<lparr>dtype = d, shape = [1, n, m],
                             elems = map2 (fl_op d (-))
                                       (map2 (fl_op d_now (+)) (elems rainnc) (elems rainc))
                                       (map2 (fl_op d_before (+)) (elems rainnc_b)
                                          (elems rainc_b))\<rparr>),
                      attrs = attrs_pr\<rparr>)],
                 coords = [coord_time l, coord_lat l, coord_lon l]\<rparr>)"
proof -
  note now = rain_sum_on_grid [OF assms(8-11)]
  note before = rain_sum_on_grid [OF assms(12-15)]
  show ?thesis
    using assms(3-7)
    by (simp add: wrf2gfs_params_dispatch [OF assms(1,2)] dispatch_def pr_branch_def
        now before np_sub_def np_binop_same_shape Let_def
        surface_dataset_on_grid [OF _ assms(16,17)])
qed

theorem pr_zero_lead_witness:
  "hours locals_00h = 0 \<and>
   open_dataset example_fs ''no_such_file.nc'' = Inl (FileNotFoundError ''no_such_file.nc'') \<and>
   wrf2gfs_params no_sh2rh example_fs ''wrfout_00h.nc'' ''pr''
       \<lparr>yearsince = None, step_b = Some ''no_such_file.nc''\<rparr> =
     ([],
      Inr \<lparr>data_vars =
             [(''rain'',
               \<lparr>dims = [''time'', ''lat'', ''lon''],
                data = \<lparr>dtype = Float32, shape = [1, 2, 3], elems = [1, 3, 4, 5, 7, 8]\<rparr>,
                attrs = attrs_pr\<rparr>)],
           coords = [coord_time locals_00h, coord_lat locals_00h, coord_lon locals_00h]\<rparr>)"
  using pr_zero_lead [OF example_opens(3) preamble_file_00h_any [of "Some ''no_such_file.nc''"]
      str_upper_examples(1) _ _ _ example_rain(5,6),
      where path = "''no_such_file.nc''" and n = 2 and m = 3 and ?sh2rh = no_sh2rh]
  by (simp add: example_opens promote_def squeeze_def float32_sums [simplified])

text \<open>
  C3, as stated, fails: at lead time 0 and with no \<^verbatim>\<open>step_b\<close> the call prints
  the error block and returns the empty dataset, which has no rain field.
\<close>

theorem pr_zero_lead_counterexample:
  "map_sum id hours (snd (preamble file_00h no_kwargs)) = Inr 0 \<and>
   wrf2gfs_params no_sh2rh example_fs ''wrfout_00h.nc'' ''pr'' no_kwargs =
     ([[], ''- - - - ERROR - - - - '', ''must be defined step_b'', ''- - - - - - - - - - - '', []],
      Inr \<lparr>data_vars = [], coords = []\<rparr>)"
  unfolding no_kwargs_def
  by (simp add: preamble_file_00h_any
      wrf2gfs_params_dispatch [OF example_opens(3) preamble_file_00h_any]
      str_upper_examples dispatch_def pr_branch_def empty_dataset_def)

theorem pr_difference_witness:
  "hours locals_06h = 6 \<and>
   wrf2gfs_params no_sh2rh example_fs ''wrfout_06h.nc'' ''pr''
       \<lparr>yearsince = None, step_b = Some ''wrfout_03h.nc''\<rparr> =
     ([],
      Inr \<lparr>data_vars =
             [(''rain'',
               \<lparr>dims = [''time'', ''lat'', ''lon''],
                data = \<lparr>dtype = Float32, shape = [1, 2, 3], elems = [4, 3, 4, 4, 4, 4]\<rparr>,
                attrs = attrs_pr\<rparr>)],
           coords = [coord_time locals_06h, coord_lat locals_06h, coord_lon locals_06h]\<rparr>)"
  using pr_difference [OF example_opens(1) preamble_file_06h_any [of "Some ''wrfout_03h.nc''"]
      str_upper_examples(1) _ _ _ example_opens(2) example_rain(1,2) _ _ example_rain(3,4),
      where n = 2 and m = 3 and ?sh2rh = no_sh2rh]
  by (simp add: promote_def squeeze_def float32_sums [simplified])

lemma lead_hours_range: "0 \<le> lead_hours b s \<and> lead_hours b s < 24"
proof -
  have "0 \<le> (secs_of_day b - secs_of_day s) mod 86400"
    "(secs_of_day b - secs_of_day s) mod 86400 < 86400"
    by simp_all
  then have "(0::rat) \<le> of_int ((secs_of_day b - secs_of_day s) mod 86400)"
    "(of_int ((secs_of_day b - secs_of_day s) mod 86400) :: rat) < 86400"
    by (simp, metis of_int_less_iff of_int_numeral)
  then show ?thesis by (simp add: lead_hours_clock)
qed

text \<open>
  C10, as amended. \<^verbatim>\<open>hours\<close> is at least 0 and less than 24. When the valid
  time has the clock time of the start date, as it has any whole number of days
  later, \<^verbatim>\<open>hours\<close> is 0, and a call for \<^verbatim>\<open>PR\<close> with a \<^verbatim>\<open>step_b\<close> that is
  not empty then returns the dataset built from \<^verbatim>\<open>RAINNC + RAINC\<close> of the
  current file alone.
\<close>

theorem lead_hours_range_and_zero_branch:
  assumes "open_dataset fs namefile = Inr nc" "preamble nc kw = (out, Inr l)"
  shows "0 \<le> hours l \<and> hours l < 24 \<and>
         (secs_of_day (valid_time l) = secs_of_day (start_date l) \<longrightarrow>
            hours l = 0 \<and>
            (\<forall>path. str_upper varname = ''PR'' \<and> step_b kw = Some path \<and> path \<noteq> [] \<longrightarrow>
               wrf2gfs_params sh2rh fs namefile varname kw =
                 (out, bind_e (rain_sum nc) (\<lambda>ncvar. surface_dataset ''rain'' ncvar attrs_pr l))))"
proof -
  from preamble_InrD [OF assms(2)] have h: "hours l = lead_hours (valid_time l) (start_date l)"
    by blast
  have zero: "hours l = 0" if "secs_of_day (valid_time l) = secs_of_day (start_date l)"
    using that by (simp add: h lead_hours_clock)
  have "wrf2gfs_params sh2rh fs namefile varname kw =
          (out, bind_e (rain_sum nc) (\<lambda>ncvar. surface_dataset ''rain'' ncvar attrs_pr l))"
    if "hours l = 0" "str_upper varname = ''PR''" "step_b kw = Some path" "path \<noteq> []" for path
    using that
    by (simp add: wrf2gfs_params_dispatch [OF assms] dispatch_def pr_branch_def)
  with zero lead_hours_range [of "valid_time l" "start_date l"] h show ?thesis by auto
qed

text \<open>
  C10, as stated, fails: two whole days after the start and with no \<^verbatim>\<open>step_b\<close>,
  \<^verbatim>\<open>hours\<close> is 0 and the call returns the empty dataset, not the accumulation of the
  current file.
\<close>

theorem lead_hours_range_and_zero_branch_counterexample:
  "map_sum id valid_time (snd (preamble file_48h no_kwargs))
     = Inr \<lparr>year = 2023, month = 12, day = 27, hour = 0, minute = 0, second = 0\<rparr> \<and>
   map_sum id start_date (snd (preamble file_48h no_kwargs))
     = Inr \<lparr>year = 2023, month = 12, day = 25, hour = 0, minute = 0, second = 0\<rparr> \<and>
   map_sum id hours (snd (preamble file_48h no_kwargs)) = Inr 0 \<and>
   wrf2gfs_params no_sh2rh example_fs ''wrfout_48h.nc'' ''pr'' no_kwargs =
     ([[], ''- - - - ERROR - - - - '', ''must be defined step_b'', ''- - - - - - - - - - - '', []],
      Inr \<lparr>data_vars = [], coords = []\<rparr>)"
  unfolding no_kwargs_def
  by (simp add: preamble_file_48h_any
      wrf2gfs_params_dispatch [OF example_opens(4) preamble_file_48h_any]
      str_upper_examples dispatch_def pr_branch_def empty_dataset_def)
    (simp add: locals_48h_def example_locals_def example_start_def)

lemma rain_sum_48h:
  "rain_sum file_48h
     = Inr \<lparr>dtype = Float32, shape = [2, 3], elems = [11, 21, 31, 41, 51, 61]\<rparr>"
  using rain_sum_on_grid [OF example_rain(7,8), of 2 3]
  by (simp add: promote_def squeeze_def float32_sums [simplified])

theorem lead_hours_range_and_zero_branch_witness:
  "0 \<le> hours locals_48h \<and> hours locals_48h < 24 \<and>
   secs_of_day (valid_time locals_48h) = secs_of_day (start_date locals_48h) \<and>
   toordinal (valid_time locals_48h) = toordinal (start_date locals_48h) + 2 \<and>
   wrf2gfs_params no_sh2rh example_fs ''wrfout_48h.nc'' ''pr''
       \<lparr>yearsince = None, step_b = Some ''wrfout_03h.nc''\<rparr> =
     ([],
      Inr \<lparr>data_vars =
             [(''rain'',
               \<lparr>dims = [''time'', ''lat'', ''lon''],
                data = \<lparr>dtype = Float32, shape = [1, 2, 3], elems = [11, 21, 31, 41, 51, 61]\<rparr>,
                attrs = attrs_pr\<rparr>)],
           coords = [coord_time locals_48h, coord_lat locals_48h, coord_lon locals_48h]\<rparr>)"
proof -
  have c: "secs_of_day (valid_time locals_48h) = secs_of_day (start_date locals_48h)"
    "toordinal (valid_time locals_48h) = toordinal (start_date locals_48h) + 2"
    by (simp_all add: locals_48h_def example_locals_def example_start_def time_eval)
  from lead_hours_range_and_zero_branch [OF example_opens(4)
      preamble_file_48h_any [of "Some ''wrfout_03h.nc''"],
      where varname = "''pr''" and ?sh2rh = no_sh2rh] c
  show ?thesis
    by (simp add: str_upper_examples rain_sum_48h
        surface_dataset_on_grid [of _ 2 3 locals_48h])
qed

subsection \<open>The temperature branch\<close>





subsection \<open>The coordinates\<close>







subsection \<open>Keys that no branch accepts\<close>

lemma dispatch_unrecognised:
  assumes "var \<notin> set [''U10'', ''V10'', ''T2'', ''RH'', ''PS'', ''CLDFRA'', ''PR'', ''LW'', ''SW'']"
  shows "dispatch sh2rh fs nc l var kw = ([], Inl (UnboundLocalError ''ds''))"
  using assms by (simp add: dispatch_def str_eq_list_def raise_io_def)

text \<open>No call with such a key returns a dataset, whatever the file is.\<close>

lemma unrecognised_key_never_returns:
  assumes "str_upper varname
             \<notin> set [''U10'', ''V10'', ''T2'', ''RH'', ''PS'', ''CLDFRA'', ''PR'', ''LW'', ''SW'']"
  shows "\<exists>e. snd (wrf2gfs_params sh2rh fs namefile varname kw) = Inl e"
proof (cases "open_dataset fs namefile")
  case (Inl e)
  then show ?thesis by (simp add: wrf2gfs_params_def)
next
  case (Inr nc)
  obtain out r where p: "preamble nc kw = (out, r)" by (cases "preamble nc kw")
  show ?thesis
  proof (cases r)
    case (Inl e)
    with p Inr show ?thesis by (simp add: wrf2gfs_params_def)
  next
    case r: (Inr l)
    with p Inr dispatch_unrecognised [OF assms] show ?thesis
      by (simp add: wrf2gfs_params_def)
  qed
qed


subsection \<open>The humidity branch\<close>


lemma nc_getitem_key:
  "nc_getitem nc name = Inr a \<Longrightarrow> name \<in> set (variables_keys nc)"
proof -
  assume "nc_getitem nc name = Inr a"
  then obtain v where "map_of (variables nc) name = Some v"
    by (auto simp: nc_getitem_def split: option.splits)
  then have "(name, v) \<in> set (variables nc)" by (rule map_of_SomeD)
  then have "name \<in> fst ` set (variables nc)" by force
  then show ?thesis by (simp add: variables_keys_def)
qed

text \<open>With the three fields the branch builds the dataset of \<^verbatim>\<open>Qair\<close>.\<close>

lemma rh_all_present:
  assumes "open_dataset fs namefile = Inr nc" "preamble nc kw = (out, Inr l)"
    and "str_upper varname = ''RH''"
    and "nc_getitem nc ''PSFC'' = Inr p" "nc_getitem nc ''T2'' = Inr t"
    and "nc_getitem nc ''Q2'' = Inr q"
    and "sh2rh (np_div_scalar (squeeze p) 100) (np_sub_scalar (squeeze t) zero_celsius)
           (squeeze q) = Inr rhvar"
    and "shape rhvar = [n, m]" "shape (lat l) = [n]" "shape (lon l) = [m]"
  shows "wrf2gfs_params sh2rh fs namefile varname kw =
           (out,
            Inr \<lparr>data_vars =
                   [(''Qair'', \<lparr>dims = [''time'', ''lat'', ''lon''],
                                data = rhvar\<lparr>shape := [1, n, m]\<rparr>, attrs = attrs_rh\<rparr>)],
                 coords = [coord_time l, coord_lat l, coord_lon l]\<rparr>)"
  using assms(3-7) nc_getitem_key [OF assms(4)] nc_getitem_key [OF assms(5)]
    nc_getitem_key [OF assms(6)]
  by (simp add: wrf2gfs_params_dispatch [OF assms(1,2)] dispatch_def rh_branch_def
      element_exists_def surface_dataset_on_grid [OF assms(8-10)])



subsection \<open>Precipitation without a prior step\<close>

text \<open>Whatever the lead time is, a call for \<^verbatim>\<open>PR\<close> without \<^verbatim>\<open>step_b\<close> returns the empty dataset.\<close>

lemma pr_no_step_b:
  assumes "open_dataset fs namefile = Inr nc" "preamble nc kw = (out, Inr l)"
    and "str_upper varname = ''PR''" "step_b kw = None"
  shows "wrf2gfs_params sh2rh fs namefile varname kw =
           (out @ [[], ''- - - - ERROR - - - - '', ''must be defined step_b'',
                   ''- - - - - - - - - - - '', []],
            Inr empty_dataset)"
  using assms(3,4)
  by (simp add: wrf2gfs_params_dispatch [OF assms(1,2)] dispatch_def pr_branch_def)

end
